theory Spec2Isabelle
  imports Complex_Main "HOL-Library.AList"
begin

section \<open>JavaScript values as manager.js handles them\<close>

text \<open>
  The Manager is dynamically typed: names, payloads, option values and ids are arbitrary
  JavaScript values. Objects are handled by reference (the options object of \<open>publish\<close> is
  written to in place), so an object value is an address into a heap of property lists.
  Numbers are the rationals plus \<open>NaN\<close>, with exact arithmetic; a function value is given
  by its source text.
\<close>

type_synonym addr = nat

datatype jsval =
    JUndefined
  | JNull
  | JBool bool
  | JNum rat
  | JNaN
  | JStr string
  | JFun string
  | JObj addr

type_synonym obj = "(string \<times> jsval) list"

type_synonym heap = "obj list"

definition typeof :: "jsval \<Rightarrow> string" where
  "typeof v = (case v of
       JUndefined \<Rightarrow> ''undefined''
     | JNull \<Rightarrow> ''object''
     | JBool _ \<Rightarrow> ''boolean''
     | JNum _ \<Rightarrow> ''number''
     | JNaN \<Rightarrow> ''number''
     | JStr _ \<Rightarrow> ''string''
     | JFun _ \<Rightarrow> ''function''
     | JObj _ \<Rightarrow> ''object'')"

definition truthy :: "jsval \<Rightarrow> bool" where
  "truthy v = (case v of
       JUndefined \<Rightarrow> False
     | JNull \<Rightarrow> False
     | JBool b \<Rightarrow> b
     | JNum n \<Rightarrow> n \<noteq> 0
     | JNaN \<Rightarrow> False
     | JStr s \<Rightarrow> s \<noteq> []
     | JFun _ \<Rightarrow> True
     | JObj _ \<Rightarrow> True)"

definition js_or :: "jsval \<Rightarrow> jsval \<Rightarrow> jsval" where
  \<comment> \<open>\<open>a || b\<close>\<close>
  "js_or a b = (if truthy a then a else b)"

definition props :: "heap \<Rightarrow> addr \<Rightarrow> obj" where
  "props h a = (if a < length h then h ! a else [])"

definition get_prop :: "heap \<Rightarrow> jsval \<Rightarrow> string \<Rightarrow> jsval" where
  \<comment> \<open>\<open>v.k\<close>; the Manager reads properties only of values it has checked to be objects\<close>
  "get_prop h v k = (case v of
       JObj a \<Rightarrow> (case map_of (props h a) k of Some x \<Rightarrow> x | None \<Rightarrow> JUndefined)
     | _ \<Rightarrow> JUndefined)"

definition has_prop :: "heap \<Rightarrow> jsval \<Rightarrow> string \<Rightarrow> bool" where
  \<comment> \<open>\<open>k in v\<close>\<close>
  "has_prop h v k = (case v of
       JObj a \<Rightarrow> (case map_of (props h a) k of Some _ \<Rightarrow> True | None \<Rightarrow> False)
     | _ \<Rightarrow> False)"

definition set_prop :: "heap \<Rightarrow> jsval \<Rightarrow> string \<Rightarrow> jsval \<Rightarrow> heap" where
  \<comment> \<open>\<open>v.k = x\<close>, in place\<close>
  "set_prop h v k x = (case v of
       JObj a \<Rightarrow> (if a < length h then h[a := AList.update k x (h ! a)] else h)
     | _ \<Rightarrow> h)"

definition new_object :: "heap \<Rightarrow> jsval \<times> heap" where
  \<comment> \<open>the literal \<open>{}\<close>: a fresh empty object\<close>
  "new_object h = (JObj (length h), h @ [[]])"

definition arg :: "jsval list \<Rightarrow> nat \<Rightarrow> jsval" where
  \<comment> \<open>\<open>args[i]\<close> of a rest parameter\<close>
  "arg args i = (if i < length args then args ! i else JUndefined)"

section \<open>The Manager's collaborators\<close>

datatype error =
    AssertionError string
  | StorageError string

datatype command =
    NextJobCommand
  | ExpireJobCommand
  | InsertJobCommand
  | CompleteJobCommand
  | CancelJobCommand

datatype params =
    NoParams
  | Param jsval
  | Params "jsval list"

record result =
  rowCount :: int
  rows :: "obj list"

text \<open>
  What the Manager is given and does not define: the executor \<open>db.executeSql\<close> (a state
  machine over a store of type \<open>'d\<close> that answers a command with a result or rejects with a
  storage error), the id factory \<open>uuid[config.uuid]\<close> (its \<open>n\<close>-th id), the runtime's
  conversions between strings and numbers (\<open>None\<close> is \<open>NaN\<close>), and the Attorney's
  \<open>applyNewJobCheckInterval\<close>, which is handed the options object and returns one or throws.
\<close>

record 'd env =
  executeSql :: "command \<Rightarrow> params \<Rightarrow> 'd \<Rightarrow> (error + result) \<times> 'd"
  uuid :: "nat \<Rightarrow> string"
  str_to_num :: "string \<Rightarrow> rat option"
  num_to_str :: "rat \<Rightarrow> string"
  applyNewJobCheckInterval :: "heap \<Rightarrow> jsval \<Rightarrow> (error + jsval) \<times> heap"

definition to_number :: "'d env \<Rightarrow> jsval \<Rightarrow> rat option" where
  "to_number env v = (case v of
       JUndefined \<Rightarrow> None
     | JNull \<Rightarrow> Some 0
     | JBool b \<Rightarrow> Some (if b then 1 else 0)
     | JNum n \<Rightarrow> Some n
     | JNaN \<Rightarrow> None
     | JStr s \<Rightarrow> str_to_num env s
     | JFun _ \<Rightarrow> None
     | JObj _ \<Rightarrow> None)"

definition to_string :: "'d env \<Rightarrow> jsval \<Rightarrow> string" where
  "to_string env v = (case v of
       JUndefined \<Rightarrow> ''undefined''
     | JNull \<Rightarrow> ''null''
     | JBool b \<Rightarrow> (if b then ''true'' else ''false'')
     | JNum n \<Rightarrow> num_to_str env n
     | JNaN \<Rightarrow> ''NaN''
     | JStr s \<Rightarrow> s
     | JFun src \<Rightarrow> src
     | JObj _ \<Rightarrow> ''[object Object]'')"

definition gt0 :: "'d env \<Rightarrow> jsval \<Rightarrow> bool" where
  \<comment> \<open>\<open>v > 0\<close>\<close>
  "gt0 env v = (case to_number env v of Some n \<Rightarrow> 0 < n | None \<Rightarrow> False)"

definition times :: "'d env \<Rightarrow> jsval \<Rightarrow> rat \<Rightarrow> jsval" where
  \<comment> \<open>\<open>v * k\<close>\<close>
  "times env v k = (case to_number env v of Some n \<Rightarrow> JNum (n * k) | None \<Rightarrow> JNaN)"

section \<open>The Manager and the world it runs in\<close>

record config =
  newJobCheckInterval :: jsval
  expireCheckInterval :: jsval

datatype fetcher = Fetch jsval
  \<comment> \<open>the closure \<open>() => self.fetch(name)\<close>, given by the name it captures\<close>

datatype responder = OnJob jsval
  \<comment> \<open>the closure \<open>onJob\<close>, given by the subscriber's callback it captures\<close>

datatype error_handler = OnError
  \<comment> \<open>the closure \<open>error => self.emit('error', error)\<close>\<close>

record worker_config =
  cfg_name :: jsval
  cfg_fetcher :: fetcher
  cfg_responder :: responder
  cfg_error :: error_handler
  cfg_interval :: jsval

text \<open>
  Modelled from the spec: the Worker class (worker.js is not part of manager.js). A worker
  is constructed from its configuration and is a polling loop that \<open>start\<close> sets running
  and \<open>stop\<close> halts.
\<close>

record worker =
  wconfig :: worker_config
  running :: bool

definition new_Worker :: "worker_config \<Rightarrow> worker" where
  "new_Worker c = \<lparr>wconfig = c, running = False\<rparr>"

definition worker_start :: "worker \<Rightarrow> worker" where
  "worker_start k = k\<lparr>running := True\<rparr>"

definition worker_stop :: "worker \<Rightarrow> worker" where
  "worker_stop k = k\<lparr>running := False\<rparr>"

datatype event =
    JobEvent obj
  | ExpiredEvent int
  | ErrorEvent error

datatype topic = JobTopic | ExpiredTopic | ErrorTopic

fun topic_of :: "event \<Rightarrow> topic" where
  "topic_of (JobEvent j) = JobTopic"
| "topic_of (ExpiredEvent n) = ExpiredTopic"
| "topic_of (ErrorEvent e) = ErrorTopic"

datatype reaction = Returns | Throws error
  \<comment> \<open>what a listener does with an event it is handed\<close>

datatype sweep = Initial | Tick
  \<comment> \<open>which continuation waits for an expire sweep: \<open>monitor\<close>'s own or a timer's \<open>check\<close>\<close>

datatype task =
    Begin nat jsval jsval jsval
  | Inserted nat jsval jsval jsval jsval jsval "error + result"
  \<comment> \<open>what a \<open>publish\<close> call still has to run: \<open>insertJob(name, data, options)\<close> after
      \<open>getArgs\<close>, or the \<open>then\<close> of an insert, which keeps \<open>name\<close>, \<open>data\<close>, \<open>options\<close>,
      \<open>singletonSeconds\<close> and \<open>id\<close> of the call and waits with the executor's answer; the
      number tells the calls apart\<close>

text \<open>
  The fields of the Manager object (\<open>config\<close>, \<open>db\<close>, \<open>workers\<close>, \<open>stopped\<close>,
  \<open>expireTimer\<close>) together with what its methods act on: the heap of the caller's objects,
  the log of the commands given to the executor, the number of ids drawn from the factory,
  the workers stopped by \<open>close\<close>, the armed timers of the runtime (handle and delay), the
  sweeps and \<open>stop\<close> continuations still pending, the events emitted so far (every call
  of \<open>emit\<close>, heard or not), the rejections of \<open>monitor\<close>'s promise, the listeners
  attached to the Manager, the rejections that no one handles, the pieces of \<open>publish\<close>
  calls still to run, the outcomes of the \<open>publish\<close> calls that have settled, the number
  of \<open>publish\<close> calls made, and the subscriber callbacks handed to \<open>setImmediate\<close>.
\<close>

record 'd manager =
  config :: config
  db :: 'd
  workers :: "worker list"
  stopped :: bool
  expireTimer :: "nat option"
  heap :: heap
  calls :: "(command \<times> params) list"
  idcount :: nat
  halted :: "worker list"
  timers :: "(nat \<times> jsval) list"
  next_timer :: nat
  inflight :: "(sweep \<times> (error + result)) list"
  stop_pending :: nat
  events :: "event list"
  rejected :: "error list"
  listeners :: "(topic \<times> reaction) list"
  unhandled :: "error list"
  publishing :: "task list"
  published :: "(nat \<times> (error + jsval)) list"
  tickets :: nat
  immediates :: "(jsval \<times> obj) list"

definition Manager :: "'d \<Rightarrow> config \<Rightarrow> heap \<Rightarrow> 'd manager" where
  \<comment> \<open>the constructor, in a runtime with heap \<open>h\<close> and nothing pending\<close>
  "Manager d c h = \<lparr>config = c, db = d, workers = [], stopped = False, expireTimer = None,
     heap = h, calls = [], idcount = 0, halted = [], timers = [], next_timer = 0,
     inflight = [], stop_pending = 0, events = [], rejected = [], listeners = [],
     unhandled = [], publishing = [], published = [], tickets = 0, immediates = []\<rparr>"

definition execute ::
  "'d env \<Rightarrow> command \<Rightarrow> params \<Rightarrow> 'd manager \<Rightarrow> (error + result) \<times> 'd manager" where
  \<comment> \<open>\<open>self.db.executeSql(command, params)\<close>\<close>
  "execute env c p w =
     (case executeSql env c p (db w) of
        (r, d') \<Rightarrow> (r, w\<lparr>db := d', calls := calls w @ [(c, p)]\<rparr>))"

section \<open>publish\<close>

definition publish_getArgs :: "heap \<Rightarrow> jsval list \<Rightarrow> (error + jsval \<times> jsval \<times> jsval) \<times> heap" where
  "publish_getArgs h args =
     (let unpacked =
        (if typeof (arg args 0) = ''string'' then
           (if typeof (arg args 1) = ''function''
            then Inl (AssertionError
              ''publish() cannot accept a function as the payload.  Did you intend to use subscribe()?'')
            else Inr (arg args 0, arg args 1, arg args 2))
         else if typeof (arg args 0) = ''object'' then
           (if length args \<noteq> 1
            then Inl (AssertionError ''publish object API only accepts 1 argument'')
            else if \<not> truthy (arg args 0)
            then Inl (AssertionError ''boss requires all jobs to have a name'')
            else Inr (get_prop h (arg args 0) ''name'', get_prop h (arg args 0) ''data'',
                      get_prop h (arg args 0) ''options''))
         else Inr (JUndefined, JUndefined, JUndefined))
      in case unpacked of
           Inl e \<Rightarrow> (Inl e, h)
         | Inr (name, data, options) \<Rightarrow>
             (case (if truthy options then (options, h) else new_object h) of
                (options', h') \<Rightarrow>
                  if \<not> truthy name
                  then (Inl (AssertionError ''boss requires all jobs to have a name''), h')
                  else if typeof options' \<noteq> ''object''
                  then (Inl (AssertionError ''options should be an object''), h')
                  else (Inr (name, data, options'), h')))"

definition startIn_of :: "'d env \<Rightarrow> heap \<Rightarrow> jsval \<Rightarrow> jsval" where
  "startIn_of env h options =
     (if gt0 env (get_prop h options ''startIn'')
      then JStr (to_string env (get_prop h options ''startIn''))
      else if typeof (get_prop h options ''startIn'') = ''string''
      then get_prop h options ''startIn''
      else JStr ''0'')"

definition singletonSeconds_of :: "'d env \<Rightarrow> heap \<Rightarrow> jsval \<Rightarrow> jsval" where
  "singletonSeconds_of env h options =
     (if gt0 env (get_prop h options ''singletonSeconds'')
      then get_prop h options ''singletonSeconds''
      else if gt0 env (get_prop h options ''singletonMinutes'')
      then times env (get_prop h options ''singletonMinutes'') 60
      else if gt0 env (get_prop h options ''singletonHours'')
      then times env (get_prop h options ''singletonHours'') (60 * 60)
      else if gt0 env (get_prop h options ''singletonDays'')
      then times env (get_prop h options ''singletonDays'') (60 * 60 * 24)
      else JNull)"

definition insert_values ::
  "'d env \<Rightarrow> heap \<Rightarrow> jsval \<Rightarrow> jsval \<Rightarrow> jsval \<Rightarrow> jsval \<Rightarrow> jsval \<Rightarrow> jsval list" where
  \<comment> \<open>the array \<open>values\<close> of \<open>insertJob\<close>\<close>
  "insert_values env h jobid name data options singletonOffset =
     [jobid, name, js_or (get_prop h options ''retryLimit'') (JNum 0), startIn_of env h options,
      js_or (get_prop h options ''expireIn'') (JStr ''15 minutes''), data,
      js_or (get_prop h options ''singletonKey'') JNull, singletonSeconds_of env h options,
      js_or singletonOffset (JNum 0)]"

function insertJob ::
  "'d env \<Rightarrow> jsval \<Rightarrow> jsval \<Rightarrow> jsval \<Rightarrow> jsval \<Rightarrow> 'd manager \<Rightarrow> (error + jsval) \<times> 'd manager" where
  "insertJob env name data options singletonOffset w =
     (let singletonSeconds = singletonSeconds_of env (heap w) options;
          jobid = JStr (uuid env (idcount w));
          values = insert_values env (heap w) jobid name data options singletonOffset
      in case execute env InsertJobCommand (Params values) (w\<lparr>idcount := Suc (idcount w)\<rparr>) of
           (Inl e, w1) \<Rightarrow> (Inl e, w1)
         | (Inr res, w1) \<Rightarrow>
             if rowCount res = 1 then (Inr jobid, w1)
             else if \<not> truthy (get_prop (heap w1) options ''singletonNextSlot'') then (Inr JNull, w1)
             else insertJob env name data options singletonSeconds
                    (w1\<lparr>heap := set_prop (set_prop (heap w1) options ''startIn'' singletonSeconds)
                                  options ''singletonNextSlot'' (JBool False)\<rparr>))"
  by pat_completeness auto

termination insertJob
proof (relation "measure (\<lambda>(env, name, data, options, off, w).
         if truthy (get_prop (heap w) options ''singletonNextSlot'') then 1 else 0)", goal_cases)
  case 1
  show ?case by simp
next
  case (2 env name data options off w ss jobid vals x w1 res)
  have h: "heap w1 = heap w"
    using 2 by (auto simp: execute_def split: prod.splits)
  from 2 have t: "truthy (get_prop (heap w) options ''singletonNextSlot'')"
    by (simp add: h)
  then obtain a where a: "options = JObj a" "a < length (heap w)"
    by (auto simp: get_prop_def props_def truthy_def split: jsval.splits option.splits if_splits)
  have "get_prop (set_prop (set_prop (heap w) (JObj a) ''startIn'' ss) (JObj a)
          ''singletonNextSlot'' (JBool False)) (JObj a) ''singletonNextSlot'' = JBool False"
    using a(2) by (simp add: get_prop_def props_def set_prop_def update_conv')
  then show ?case
    using t a by (simp add: h truthy_def)
qed

declare insertJob.simps [simp del]

definition publish :: "'d env \<Rightarrow> jsval list \<Rightarrow> 'd manager \<Rightarrow> (error + jsval) \<times> 'd manager" where
  "publish env args w =
     (case publish_getArgs (heap w) args of
        (Inl e, h') \<Rightarrow> (Inl e, w\<lparr>heap := h'\<rparr>)
      | (Inr (name, data, options), h') \<Rightarrow>
          insertJob env name data options JUndefined (w\<lparr>heap := h'\<rparr>))"

text \<open>
  The definitions above run a \<open>publish\<close> call from its arguments to its outcome with
  nothing in between. In the Manager the call runs in pieces, and pieces of other calls
  may run between them: \<open>getArgs\<close> runs in the call; \<open>insertJob\<close> runs when the promise
  of \<open>getArgs\<close> has resolved, up to handing the insert to the executor; the \<open>then\<close> of
  the insert runs when the executor has answered, and it is then that
  \<open>options.singletonNextSlot\<close> is read.
\<close>

definition settle :: "nat \<Rightarrow> error + jsval \<Rightarrow> 'd manager \<Rightarrow> 'd manager" where
  \<comment> \<open>the promise of a \<open>publish\<close> call resolves or rejects\<close>
  "settle t r w = w\<lparr>published := published w @ [(t, r)]\<rparr>"

definition insertJob_call ::
  "'d env \<Rightarrow> nat \<Rightarrow> jsval \<Rightarrow> jsval \<Rightarrow> jsval \<Rightarrow> jsval \<Rightarrow> 'd manager \<Rightarrow> 'd manager" where
  \<comment> \<open>\<open>insertJob\<close> up to \<open>self.db.executeSql(self.insertJobCommand, values)\<close>\<close>
  "insertJob_call env t name data options singletonOffset w =
     (let singletonSeconds = singletonSeconds_of env (heap w) options;
          jobid = JStr (uuid env (idcount w));
          values = insert_values env (heap w) jobid name data options singletonOffset
      in case execute env InsertJobCommand (Params values) (w\<lparr>idcount := Suc (idcount w)\<rparr>) of
           (r, w1) \<Rightarrow>
             w1\<lparr>publishing := publishing w1 @ [Inserted t name data options singletonSeconds jobid r]\<rparr>)"

definition insertJob_then ::
  "'d env \<Rightarrow> nat \<Rightarrow> jsval \<Rightarrow> jsval \<Rightarrow> jsval \<Rightarrow> jsval \<Rightarrow> jsval \<Rightarrow> error + result
     \<Rightarrow> 'd manager \<Rightarrow> 'd manager" where
  \<comment> \<open>the \<open>then\<close> of the insert\<close>
  "insertJob_then env t name data options singletonSeconds jobid r w =
     (case r of
        Inl e \<Rightarrow> settle t (Inl e) w
      | Inr res \<Rightarrow>
          if rowCount res = 1 then settle t (Inr jobid) w
          else if \<not> truthy (get_prop (heap w) options ''singletonNextSlot'') then settle t (Inr JNull) w
          else insertJob_call env t name data options singletonSeconds
                 (w\<lparr>heap := set_prop (set_prop (heap w) options ''startIn'' singletonSeconds)
                               options ''singletonNextSlot'' (JBool False)\<rparr>))"

definition publish_call :: "'d env \<Rightarrow> jsval list \<Rightarrow> 'd manager \<Rightarrow> 'd manager" where
  \<comment> \<open>the call \<open>publish(...args)\<close>, which is given the next number\<close>
  "publish_call env args w =
     (case publish_getArgs (heap w) args of
        (Inl e, h') \<Rightarrow> settle (tickets w) (Inl e) (w\<lparr>heap := h', tickets := Suc (tickets w)\<rparr>)
      | (Inr (name, data, options), h') \<Rightarrow>
          w\<lparr>heap := h', tickets := Suc (tickets w),
            publishing := publishing w @ [Begin (tickets w) name data options]\<rparr>)"

definition publish_step :: "'d env \<Rightarrow> nat \<Rightarrow> 'd manager \<Rightarrow> 'd manager" where
  \<comment> \<open>the \<open>i\<close>-th pending piece runs\<close>
  "publish_step env i w =
     (if i < length (publishing w) then
        (case publishing w ! i of
           Begin t name data options \<Rightarrow>
             insertJob_call env t name data options JUndefined
               (w\<lparr>publishing := take i (publishing w) @ drop (Suc i) (publishing w)\<rparr>)
         | Inserted t name data options singletonSeconds jobid r \<Rightarrow>
             insertJob_then env t name data options singletonSeconds jobid r
               (w\<lparr>publishing := take i (publishing w) @ drop (Suc i) (publishing w)\<rparr>))
      else w)"

section \<open>fetch, complete, cancel\<close>

definition fetch :: "'d env \<Rightarrow> jsval \<Rightarrow> 'd manager \<Rightarrow> (error + obj option) \<times> 'd manager" where
  \<comment> \<open>\<open>None\<close> is the result \<open>null\<close>; a row is the property list of the row object\<close>
  "fetch env name w =
     (case execute env NextJobCommand (Param name) w of
        (Inl e, w1) \<Rightarrow> (Inl e, w1)
      | (Inr res, w1) \<Rightarrow>
          if length (rows res) = 0 then (Inr None, w1)
          else (Inr (Some (AList.update ''name'' name (rows res ! 0))), w1))"

definition complete :: "'d env \<Rightarrow> jsval \<Rightarrow> 'd manager \<Rightarrow> (error + jsval) \<times> 'd manager" where
  "complete env jobid w =
     (case execute env CompleteJobCommand (Params [jobid]) w of
        (Inl e, w1) \<Rightarrow> (Inl e, w1)
      | (Inr res, w1) \<Rightarrow>
          if rowCount res = 1 then (Inr jobid, w1)
          else (Inl (AssertionError (''Job '' @ to_string env jobid @ '' could not be completed.'')), w1))"

definition cancel :: "'d env \<Rightarrow> jsval \<Rightarrow> 'd manager \<Rightarrow> (error + jsval) \<times> 'd manager" where
  "cancel env jobid w =
     (case execute env CancelJobCommand (Params [jobid]) w of
        (Inl e, w1) \<Rightarrow> (Inl e, w1)
      | (Inr res, w1) \<Rightarrow>
          if rowCount res = 1 then (Inr jobid, w1)
          else (Inl (AssertionError (''Job '' @ to_string env jobid @ '' could not be cancelled.'')), w1))"

section \<open>subscribe\<close>

definition subscribe_getArgs ::
  "'d env \<Rightarrow> config \<Rightarrow> heap \<Rightarrow> jsval \<Rightarrow> jsval list \<Rightarrow> (error + jsval \<times> jsval) \<times> heap" where
  "subscribe_getArgs env c h name args =
     (if \<not> truthy name then (Inl (AssertionError ''boss requires all jobs to have a name''), h)
      else
        case (if length args = 1 then (case new_object h of (fresh, h') \<Rightarrow> (fresh, arg args 0, h'))
              else if length args = 2 then
                (case (if truthy (arg args 0) then (arg args 0, h) else new_object h) of
                   (given, h') \<Rightarrow> (given, arg args 1, h'))
              else (JUndefined, JUndefined, h)) of
          (options, callback, h1) \<Rightarrow>
            if typeof callback \<noteq> ''function''
            then (Inl (AssertionError ''expected a callback function''), h1)
            else if truthy options \<and> typeof options \<noteq> ''object''
            then (Inl (AssertionError ''expected config to be an object''), h1)
            else
              case (if truthy options then (options, h1) else new_object h1) of
                (options2, h2) \<Rightarrow>
                  let h3 = set_prop h2 options2 ''teamSize''
                             (js_or (get_prop h2 options2 ''teamSize'') (JNum 1))
                  in if has_prop h3 options2 ''newJobCheckInterval''
                        \<or> has_prop h3 options2 ''newJobCheckIntervalSeconds''
                     then (case applyNewJobCheckInterval env h3 options2 of
                             (Inl e, h4) \<Rightarrow> (Inl e, h4)
                           | (Inr options3, h4) \<Rightarrow> (Inr (options3, callback), h4))
                     else (Inr (options2, callback),
                           set_prop h3 options2 ''newJobCheckInterval'' (newJobCheckInterval c)))"

definition js_less :: "'d env \<Rightarrow> int \<Rightarrow> jsval \<Rightarrow> bool" where
  \<comment> \<open>\<open>w < v\<close> for a number \<open>w\<close>\<close>
  "js_less env i v = (case to_number env v of Some n \<Rightarrow> of_int i < n | None \<Rightarrow> False)"

function register_loop ::
  "'d env \<Rightarrow> worker_config \<Rightarrow> jsval \<Rightarrow> int \<Rightarrow> 'd manager \<Rightarrow> 'd manager" where
  "register_loop env workerConfig options i w =
     (if js_less env i (get_prop (heap w) options ''teamSize'')
      then register_loop env workerConfig options (i + 1)
             (w\<lparr>workers := workers w @ [worker_start (new_Worker workerConfig)]\<rparr>)
      else w)"
  by pat_completeness auto
termination
  by (relation "measure (\<lambda>(env, workerConfig, options, i, w).
        case to_number env (get_prop (heap w) options ''teamSize'') of
          Some n \<Rightarrow> nat (\<lceil>n\<rceil> - i) | None \<Rightarrow> 0)")
     (auto simp: js_less_def less_ceiling_iff split: option.splits)

declare register_loop.simps [simp del]

definition register :: "'d env \<Rightarrow> jsval \<Rightarrow> jsval \<Rightarrow> jsval \<Rightarrow> 'd manager \<Rightarrow> 'd manager" where
  "register env name options callback w =
     register_loop env
       \<lparr>cfg_name = name, cfg_fetcher = Fetch name, cfg_responder = OnJob callback,
        cfg_error = OnError, cfg_interval = get_prop (heap w) options ''newJobCheckInterval''\<rparr>
       options 0 w"

definition subscribe ::
  "'d env \<Rightarrow> jsval \<Rightarrow> jsval list \<Rightarrow> 'd manager \<Rightarrow> (error + jsval) \<times> 'd manager" where
  "subscribe env name args w =
     (case subscribe_getArgs env (config w) (heap w) name args of
        (Inl e, h') \<Rightarrow> (Inl e, w\<lparr>heap := h'\<rparr>)
      | (Inr (options, callback), h') \<Rightarrow>
          (Inr JUndefined, register env name options callback (w\<lparr>heap := h'\<rparr>)))"

section \<open>monitor, close, stop\<close>

text \<open>
  \<open>monitor\<close>, the timer's \<open>check\<close> and \<open>stop\<close> run in pieces: a sweep is handed to the
  executor and its continuation runs when the executor has answered; the body of \<open>stop\<close>
  runs when the promise of \<open>close\<close> has resolved; a timer fires while it is armed. Each
  piece is one step of the Manager, and the runtime chooses the order of the steps.
  A timer handle is named by a number; as a value it is an object, so the test
  \<open>if (this.expireTimer)\<close> of \<open>stop\<close> asks whether a handle has been stored.

  The Manager is an EventEmitter, and its constructor attaches no listener. \<open>emit\<close>
  hands the event to the listeners of its topic in the order they were attached; when one
  throws, \<open>emit\<close> throws that; and \<open>emit('error', e)\<close> throws \<open>e\<close> when no listener
  is attached to \<open>error\<close>.
\<close>

fun first_throw :: "reaction list \<Rightarrow> error option" where
  "first_throw [] = None"
| "first_throw (Returns # rs) = first_throw rs"
| "first_throw (Throws x # rs) = Some x"

definition hearing :: "'d manager \<Rightarrow> topic \<Rightarrow> reaction list" where
  "hearing w t = map snd (filter (\<lambda>(t', r). t' = t) (listeners w))"

definition emit :: "event \<Rightarrow> 'd manager \<Rightarrow> error option \<times> 'd manager" where
  \<comment> \<open>\<open>Some x\<close> when \<open>emit\<close> throws \<open>x\<close>\<close>
  "emit ev w =
     (case ev of
        ErrorEvent e \<Rightarrow>
          if hearing w ErrorTopic = [] then Some e else first_throw (hearing w ErrorTopic)
      | _ \<Rightarrow> first_throw (hearing w (topic_of ev)),
      w\<lparr>events := events w @ [ev]\<rparr>)"

definition add_listener :: "topic \<Rightarrow> reaction \<Rightarrow> 'd manager \<Rightarrow> 'd manager" where
  \<comment> \<open>\<open>manager.on(topic, listener)\<close>\<close>
  "add_listener t r w = w\<lparr>listeners := listeners w @ [(t, r)]\<rparr>"

definition expire :: "'d env \<Rightarrow> sweep \<Rightarrow> 'd manager \<Rightarrow> 'd manager" where
  \<comment> \<open>the call of \<open>expire()\<close>: the sweep is given to the executor, its answer is pending\<close>
  "expire env k w =
     (case execute env ExpireJobCommand NoParams w of
        (r, w1) \<Rightarrow> w1\<lparr>inflight := inflight w1 @ [(k, r)]\<rparr>)"

definition expire_then :: "error + result \<Rightarrow> 'd manager \<Rightarrow> error option \<times> 'd manager" where
  \<comment> \<open>the \<open>then\<close> of \<open>expire\<close>: \<open>Some e\<close> when the promise it returns is rejected with \<open>e\<close>,
      by the executor or by a listener of \<open>expired\<close> that throws\<close>
  "expire_then r w =
     (case r of
        Inl e \<Rightarrow> (Some e, w)
      | Inr res \<Rightarrow> if rowCount res \<noteq> 0 then emit (ExpiredEvent (rowCount res)) w else (None, w))"

definition setTimeout :: "jsval \<Rightarrow> 'd manager \<Rightarrow> nat \<times> 'd manager" where
  "setTimeout delay w =
     (next_timer w, w\<lparr>timers := timers w @ [(next_timer w, delay)], next_timer := Suc (next_timer w)\<rparr>)"

definition clearTimeout :: "nat \<Rightarrow> 'd manager \<Rightarrow> 'd manager" where
  "clearTimeout t w = w\<lparr>timers := filter (\<lambda>(t', delay). t' \<noteq> t) (timers w)\<rparr>"

definition init :: "'d manager \<Rightarrow> 'd manager" where
  "init w =
     (if stopped w then w
      else case setTimeout (expireCheckInterval (config w)) w of
             (t, w1) \<Rightarrow> w1\<lparr>expireTimer := Some t\<rparr>)"

definition monitor :: "'d env \<Rightarrow> 'd manager \<Rightarrow> 'd manager" where
  "monitor env w = expire env Initial w"

definition check :: "'d env \<Rightarrow> 'd manager \<Rightarrow> 'd manager" where
  "check env w = expire env Tick w"

definition sweep_done :: "nat \<Rightarrow> 'd manager \<Rightarrow> 'd manager" where
  \<comment> \<open>the executor has answered the \<open>i\<close>-th pending sweep:
      \<open>expire().then(init)\<close> for \<open>monitor\<close>, whose caller has the promise;
      \<open>expire().catch(emit error).then(init)\<close> for \<open>check\<close>, whose promise no one has, so
      that what the \<open>catch\<close> throws is a rejection that no one handles\<close>
  "sweep_done i w =
     (if i < length (inflight w) then
        (case inflight w ! i of
           (k, r) \<Rightarrow>
             (case expire_then r (w\<lparr>inflight := take i (inflight w) @ drop (Suc i) (inflight w)\<rparr>) of
                (None, w1) \<Rightarrow> init w1
              | (Some e, w1) \<Rightarrow>
                  (case k of
                     Initial \<Rightarrow> w1\<lparr>rejected := rejected w1 @ [e]\<rparr>
                   | Tick \<Rightarrow>
                       (case emit (ErrorEvent e) w1 of
                          (None, w2) \<Rightarrow> init w2
                        | (Some x, w2) \<Rightarrow> w2\<lparr>unhandled := unhandled w2 @ [x]\<rparr>))))
      else w)"

definition timer_fire :: "'d env \<Rightarrow> nat \<Rightarrow> 'd manager \<Rightarrow> 'd manager" where
  \<comment> \<open>an armed timer fires, once, and runs \<open>check\<close>\<close>
  "timer_fire env t w =
     (if t \<in> fst ` set (timers w) then check env (clearTimeout t w) else w)"

definition close :: "'d manager \<Rightarrow> 'd manager" where
  "close w = w\<lparr>halted := halted w @ map worker_stop (workers w), workers := []\<rparr>"

definition stop_call :: "'d manager \<Rightarrow> 'd manager" where
  \<comment> \<open>the call of \<open>stop()\<close>: \<open>close\<close> runs, the body is pending\<close>
  "stop_call w = (close w)\<lparr>stop_pending := Suc (stop_pending w)\<rparr>"

definition stop_then :: "'d manager \<Rightarrow> 'd manager" where
  \<comment> \<open>the body of \<open>stop()\<close>\<close>
  "stop_then w =
     (if stop_pending w = 0 then w
      else case expireTimer w of
             None \<Rightarrow> w\<lparr>stop_pending := stop_pending w - 1, stopped := True\<rparr>
           | Some t \<Rightarrow> clearTimeout t (w\<lparr>stop_pending := stop_pending w - 1, stopped := True\<rparr>))"

definition stop :: "'d manager \<Rightarrow> 'd manager" where
  \<comment> \<open>\<open>stop()\<close> run to completion\<close>
  "stop w = stop_then (stop_call w)"

section \<open>The closures handed to the workers\<close>


definition error_handler_call :: "error_handler \<Rightarrow> error \<Rightarrow> 'd manager \<Rightarrow> error option \<times> 'd manager" where
  \<comment> \<open>\<open>onError(error)\<close>\<close>
  "error_handler_call f e w = (case f of OnError \<Rightarrow> emit (ErrorEvent e) w)"

definition responder_call ::
  "responder \<Rightarrow> obj option \<Rightarrow> 'd manager \<Rightarrow> error option \<times> 'd manager" where
  \<comment> \<open>\<open>onJob(job)\<close>, up to handing the subscriber's callback to \<open>setImmediate\<close>\<close>
  "responder_call f job w =
     (case f of
        OnJob callback \<Rightarrow>
          (case job of
             None \<Rightarrow> (None, w)
           | Some j \<Rightarrow>
               (case emit (JobEvent j) w of
                  (Some x, w1) \<Rightarrow> (Some x, w1)
                | (None, w1) \<Rightarrow> (None, w1\<lparr>immediates := immediates w1 @ [(callback, j)]\<rparr>))))"

section \<open>The steps of a Manager\<close>

datatype action =
    CallMonitor
  | SweepDone nat
  | TimerFire nat
  | CallStop
  | StopThen
  | AddListener topic reaction
  | CallPublish "jsval list"
  | PublishStep nat
  | CallSubscribe jsval "jsval list"
  | CallFetch jsval
  | CallComplete jsval
  | CallCancel jsval

fun step :: "'d env \<Rightarrow> 'd manager \<Rightarrow> action \<Rightarrow> 'd manager" where
  "step env w CallMonitor = monitor env w"
| "step env w (SweepDone i) = sweep_done i w"
| "step env w (TimerFire t) = timer_fire env t w"
| "step env w CallStop = stop_call w"
| "step env w StopThen = stop_then w"
| "step env w (AddListener t r) = add_listener t r w"
| "step env w (CallPublish args) = publish_call env args w"
| "step env w (PublishStep i) = publish_step env i w"
| "step env w (CallSubscribe name args) = snd (subscribe env name args w)"
| "step env w (CallFetch name) = snd (fetch env name w)"
| "step env w (CallComplete jobid) = snd (complete env jobid w)"
| "step env w (CallCancel jobid) = snd (cancel env jobid w)"

definition run :: "'d env \<Rightarrow> action list \<Rightarrow> 'd manager \<Rightarrow> 'd manager" where
  "run env acts w = foldl (step env) w acts"

section \<open>The singleton algebra as the specification words it\<close>






section \<open>Notions for stating what subscribe does\<close>



text \<open>
  Modelled from the spec: what \<open>Attorney.applyNewJobCheckInterval\<close> does to the options
  (attorney.js is not part of manager.js). It validates them and writes back a canonical
  millisecond value: it returns the options object it was given or throws, and writes to
  nothing but \<open>newJobCheckInterval\<close> of that object.
\<close>

definition attorney_contract :: "'d env \<Rightarrow> bool" where
  "attorney_contract env =
     (\<forall>h v r h'. applyNewJobCheckInterval env h v = (r, h') \<longrightarrow>
        (r = Inr v \<or> (\<exists>e. r = Inl e))
        \<and> (\<forall>ob k. \<not> (ob = v \<and> k = ''newJobCheckInterval'') \<longrightarrow>
               get_prop h' ob k = get_prop h ob k))"

definition team :: "'d env \<Rightarrow> jsval \<Rightarrow> nat" where
  \<comment> \<open>how many of the counts 0, 1, 2, ... are below \<open>teamSize\<close>\<close>
  "team env v = (case to_number env v of Some n \<Rightarrow> nat \<lceil>n\<rceil> | None \<Rightarrow> 0)"

section \<open>Notions for stating what publish does in pieces\<close>

definition same_store :: "'d manager \<Rightarrow> 'd manager \<Rightarrow> bool" where
  \<comment> \<open>two Managers agree on the heap, the store, the commands run and the ids drawn\<close>
  "same_store w1 w2 = (heap w1 = heap w2 \<and> db w1 = db w2 \<and> calls w1 = calls w2 \<and> idcount w1 = idcount w2)"

section \<open>The state of the expiration monitor\<close>

definition clock ::
  "'d manager \<Rightarrow> bool \<times> nat option \<times> (nat \<times> jsval) list \<times> (sweep \<times> (error + result)) list" where
  \<comment> \<open>what \<open>monitor\<close> and \<open>stop\<close> act on: the stopped flag, the timer handle the Manager
      keeps, the armed timers and the pending sweeps\<close>
  "clock w = (stopped w, expireTimer w, timers w, inflight w)"

definition idle :: "'d manager \<Rightarrow> bool" where
  \<comment> \<open>no monitor is running: no sweep is pending and no timer is armed\<close>
  "idle w = (inflight w = [] \<and> timers w = [])"

definition monitoring :: "'d manager \<Rightarrow> bool" where
  \<comment> \<open>at most one monitor is running: it is in a sweep or waits for its timer, an armed
      timer is the one the Manager keeps the handle of, and none is armed once stopped\<close>
  "monitoring w =
     (length (inflight w) + length (timers w) \<le> 1
      \<and> list_all (\<lambda>(t, delay). expireTimer w = Some t) (timers w)
      \<and> (stopped w \<longrightarrow> timers w = []))"

definition quiet :: "'d manager \<Rightarrow> topic \<Rightarrow> bool" where
  \<comment> \<open>no listener of the topic throws\<close>
  "quiet w t = list_all (\<lambda>r. r = Returns) (hearing w t)"

definition sweep_error :: "'d manager \<Rightarrow> error + result \<Rightarrow> error option" where
  \<comment> \<open>the error that a sweep raises: the executor's, or what a listener of \<open>expired\<close> throws\<close>
  "sweep_error w r =
     (case r of
        Inl e \<Rightarrow> Some e
      | Inr res \<Rightarrow> if rowCount res \<noteq> 0 then first_throw (hearing w ExpiredTopic) else None)"

definition expired_events :: "error + result \<Rightarrow> event list" where
  \<comment> \<open>the \<open>expired\<close> event of a sweep, when it has one\<close>
  "expired_events r =
     (case r of
        Inl e \<Rightarrow> []
      | Inr res \<Rightarrow> if rowCount res \<noteq> 0 then [ExpiredEvent (rowCount res)] else [])"

section \<open>Stand-ins for the collaborators, for running the Manager on concrete inputs\<close>

definition scripted ::
  "command \<Rightarrow> params \<Rightarrow> (error + result) list \<Rightarrow> (error + result) \<times> (error + result) list" where
  \<comment> \<open>an executor that gives the answers of a script, one per call\<close>
  "scripted c p script =
     (case script of
        [] \<Rightarrow> (Inl (StorageError ''connection lost''), [])
      | r # rest \<Rightarrow> (r, rest))"

definition affected :: "int \<Rightarrow> error + result" where
  "affected n = Inr \<lparr>rowCount = n, rows = []\<rparr>"

definition selected :: "obj list \<Rightarrow> error + result" where
  "selected rs = Inr \<lparr>rowCount = int (length rs), rows = rs\<rparr>"

fun decimal :: "nat \<Rightarrow> string" where
  "decimal n = (if n < 10 then [char_of (48 + n)] else decimal (n div 10) @ [char_of (48 + n mod 10)])"

declare decimal.simps [simp del]

fun fraction :: "nat \<Rightarrow> rat \<Rightarrow> string" where
  "fraction 0 q = []"
| "fraction (Suc k) q =
     (if q = 0 then []
      else char_of (48 + nat \<lfloor>q * 10\<rfloor>) # fraction k (q * 10 - of_int \<lfloor>q * 10\<rfloor>))"

definition show_number :: "rat \<Rightarrow> string" where
  \<comment> \<open>the decimal numeral of a number, exact when it has at most 17 fractional digits\<close>
  "show_number q =
     (if q < 0 then ''-'' else []) @ decimal (nat \<lfloor>\<bar>q\<bar>\<rfloor>)
     @ (if \<bar>q\<bar> = of_int \<lfloor>\<bar>q\<bar>\<rfloor> then [] else CHR ''.'' # fraction 17 (\<bar>q\<bar> - of_int \<lfloor>\<bar>q\<bar>\<rfloor>))"

definition read_decimal :: "string \<Rightarrow> rat option" where
  \<comment> \<open>the number of an unsigned decimal numeral; the empty string is 0\<close>
  "read_decimal s =
     (if list_all (\<lambda>c. c \<in> set ''0123456789'') s
      then Some (of_nat (foldl (\<lambda>n c. 10 * n + (of_char c - 48)) 0 s))
      else None)"

text \<open>
  Modelled from the spec: \<open>Attorney.applyNewJobCheckInterval\<close> (attorney.js is not part of
  manager.js). It accepts \<open>newJobCheckIntervalSeconds\<close> (seconds) or \<open>newJobCheckInterval\<close>
  (milliseconds), rejects a value outside the allowed range with an invalid-argument error
  and writes the interval back in milliseconds. The spec does not give the range; the
  positive numbers are taken.
\<close>

definition attorney :: "heap \<Rightarrow> jsval \<Rightarrow> (error + jsval) \<times> heap" where
  "attorney h options =
     (if has_prop h options ''newJobCheckIntervalSeconds'' then
        (case get_prop h options ''newJobCheckIntervalSeconds'' of
           JNum n \<Rightarrow>
             if 0 < n then (Inr options, set_prop h options ''newJobCheckInterval'' (JNum (n * 1000)))
             else (Inl (AssertionError ''newJobCheckIntervalSeconds is out of range''), h)
         | _ \<Rightarrow> (Inl (AssertionError ''newJobCheckIntervalSeconds is out of range''), h))
      else
        (case get_prop h options ''newJobCheckInterval'' of
           JNum n \<Rightarrow>
             if 0 < n then (Inr options, h)
             else (Inl (AssertionError ''newJobCheckInterval is out of range''), h)
         | _ \<Rightarrow> (Inl (AssertionError ''newJobCheckInterval is out of range''), h)))"

definition scripted_env :: "(error + result) list env" where
  "scripted_env =
     \<lparr>executeSql = scripted, uuid = (\<lambda>n. ''job-'' @ decimal n), str_to_num = read_decimal,
      num_to_str = show_number, applyNewJobCheckInterval = attorney\<rparr>"

definition default_config :: config where
  "default_config = \<lparr>newJobCheckInterval = JNum 1000, expireCheckInterval = JNum 60000\<rparr>"

section \<open>Facts about the heap and the executor\<close>

lemma props_set_prop:
  "props (set_prop h v k x) b =
     (if v = JObj b \<and> b < length h then AList.update k x (props h b) else props h b)"
  by (auto simp: props_def set_prop_def split: jsval.splits)

lemma get_prop_set_prop:
  "get_prop (set_prop h v k x) v' k' =
     (if v' = v \<and> k' = k \<and> (\<exists>a. v = JObj a \<and> a < length h) then x else get_prop h v' k')"
  by (auto simp: get_prop_def props_set_prop update_conv' split: jsval.splits option.splits)

lemma length_set_prop: "length (set_prop h v k x) = length h"
  by (auto simp: set_prop_def split: jsval.splits)

lemma truthy_get_prop_valid:
  "truthy (get_prop h v k) \<Longrightarrow> \<exists>a. v = JObj a \<and> a < length h"
  by (auto simp: get_prop_def props_def truthy_def split: jsval.splits option.splits if_splits)

lemma attorney_meets_contract: "attorney_contract scripted_env"
  unfolding attorney_contract_def
  by (auto simp: scripted_env_def attorney_def get_prop_set_prop split: if_splits jsval.splits)

lemma attorney_contract_frame:
  assumes "attorney_contract env" "applyNewJobCheckInterval env h v = (r, h')"
    "k \<noteq> ''newJobCheckInterval''"
  shows "get_prop h' ob k = get_prop h ob k"
  using assms unfolding attorney_contract_def by blast



section \<open>The derived singletonSeconds\<close>








section \<open>What fetch returns\<close>

text \<open>
  C5. When the executor answers \<open>fetch(name)\<close> with no row the result is null; otherwise
  the result is the first row with its \<open>name\<close> set to the requested name, whatever name the
  row came with, and with every other field as the executor returned it.
\<close>

theorem fetch_first_row_named:
  assumes "executeSql env NextJobCommand (Param name) (db w) = (Inr res, d)"
  shows "(rows res = [] \<longrightarrow> fst (fetch env name w) = Inr None)
       \<and> (rows res \<noteq> [] \<longrightarrow>
            (\<exists>job. fst (fetch env name w) = Inr (Some job)
               \<and> map_of job ''name'' = Some name
               \<and> (\<forall>k. k \<noteq> ''name'' \<longrightarrow> map_of job k = map_of (hd (rows res)) k)))"
  using assms
  by (auto simp: fetch_def execute_def update_conv' hd_conv_nth)

theorem fetch_first_row_named_witness:
  "fst (fetch scripted_env (JStr ''email'')
         (Manager [selected []] default_config [])) = Inr None
   \<and> (\<exists>job. fst (fetch scripted_env (JStr ''email'')
                (Manager [selected [[(''id'', JStr ''a1''), (''name'', JStr ''queue'')],
                                    [(''id'', JStr ''b2'')]]] default_config []))
              = Inr (Some job)
          \<and> map_of job ''name'' = Some (JStr ''email'')
          \<and> map_of job ''id'' = Some (JStr ''a1''))"
proof -
  let ?none = "Manager [selected []] default_config []"
  let ?two = "Manager [selected [[(''id'', JStr ''a1''), (''name'', JStr ''queue'')],
                                 [(''id'', JStr ''b2'')]]] default_config []"
  have e0: "executeSql scripted_env NextJobCommand (Param (JStr ''email'')) (db ?none)
              = (Inr \<lparr>rowCount = 0, rows = []\<rparr>, [])"
    by (simp add: scripted_env_def scripted_def Manager_def selected_def)
  have e2: "executeSql scripted_env NextJobCommand (Param (JStr ''email'')) (db ?two)
              = (Inr \<lparr>rowCount = 2, rows = [[(''id'', JStr ''a1''), (''name'', JStr ''queue'')],
                                             [(''id'', JStr ''b2'')]]\<rparr>, [])"
    by (simp add: scripted_env_def scripted_def Manager_def selected_def)
  from fetch_first_row_named [OF e0]
  have 1: "fst (fetch scripted_env (JStr ''email'') ?none) = Inr None"
    by simp
  from fetch_first_row_named [OF e2]
  obtain job where j: "fst (fetch scripted_env (JStr ''email'') ?two) = Inr (Some job)"
      "map_of job ''name'' = Some (JStr ''email'')"
      "\<forall>k. k \<noteq> ''name'' \<longrightarrow>
         map_of job k = map_of [(''id'', JStr ''a1''), (''name'', JStr ''queue'')] k"
    by auto
  from j(3) have "map_of job ''id'' = Some (JStr ''a1'')"
    by simp
  with 1 j(1,2) show ?thesis
    by blast
qed

section \<open>What complete and cancel return\<close>

text \<open>
  C4. \<open>complete(id)\<close> resolves with \<open>id\<close> when the store reports exactly one row updated
  and otherwise fails with the error \<open>Job <id> could not be completed.\<close>; \<open>cancel(id)\<close>
  does the same against the cancel command. So when the store, asked again to complete a
  job that a first \<open>complete\<close> has completed, reports no row, the second \<open>complete\<close> fails
  with that error.
\<close>

theorem complete_cancel_one_row:
  "(executeSql env CompleteJobCommand (Params [jobid]) (db w) = (Inr res, d) \<longrightarrow>
      fst (complete env jobid w) =
        (if rowCount res = 1 then Inr jobid
         else Inl (AssertionError (''Job '' @ to_string env jobid @ '' could not be completed.''))))
   \<and> (executeSql env CancelJobCommand (Params [jobid]) (db w) = (Inr res, d) \<longrightarrow>
      fst (cancel env jobid w) =
        (if rowCount res = 1 then Inr jobid
         else Inl (AssertionError (''Job '' @ to_string env jobid @ '' could not be cancelled.''))))
   \<and> (complete env jobid w = (Inr r, w1)
        \<and> executeSql env CompleteJobCommand (Params [jobid]) (db w1) = (Inr res2, d2)
        \<and> rowCount res2 = 0 \<longrightarrow>
      r = jobid
      \<and> fst (complete env jobid w1) =
          Inl (AssertionError (''Job '' @ to_string env jobid @ '' could not be completed.'')))
   \<and> to_string env (JStr s) = s"
  by (auto simp: complete_def cancel_def execute_def to_string_def split: prod.splits sum.splits if_splits)

theorem complete_cancel_one_row_witness:
  "(\<exists>w1. complete scripted_env (JStr ''a1'') (Manager [affected 1, affected 0] default_config [])
            = (Inr (JStr ''a1''), w1)
         \<and> fst (complete scripted_env (JStr ''a1'') w1)
            = Inl (AssertionError ''Job a1 could not be completed.''))
   \<and> fst (cancel scripted_env (JStr ''a1'') (Manager [affected 1] default_config []))
        = Inr (JStr ''a1'')
   \<and> fst (cancel scripted_env (JStr ''a1'') (Manager [affected 0] default_config []))
        = Inl (AssertionError ''Job a1 could not be cancelled.'')"
proof -
  let ?w = "Manager [affected 1, affected 0] default_config []"
  let ?c1 = "Manager [affected 1] default_config []"
  let ?c0 = "Manager [affected 0] default_config []"
  obtain r w1 where c: "complete scripted_env (JStr ''a1'') ?w = (r, w1)"
    by (cases "complete scripted_env (JStr ''a1'') ?w")
  have e1: "executeSql scripted_env CompleteJobCommand (Params [JStr ''a1'']) (db ?w)
              = (Inr \<lparr>rowCount = 1, rows = []\<rparr>, [affected 0])"
    by (simp add: scripted_env_def scripted_def Manager_def affected_def)
  from complete_cancel_one_row [of scripted_env "JStr ''a1''" ?w "\<lparr>rowCount = 1, rows = []\<rparr>"
      "[affected 0]"] e1 c
  have r: "r = Inr (JStr ''a1'')"
    by simp
  have w1: "db w1 = [affected 0]"
    using c by (auto simp: complete_def execute_def scripted_env_def scripted_def Manager_def
        affected_def)
  have e2: "executeSql scripted_env CompleteJobCommand (Params [JStr ''a1'']) (db w1)
              = (Inr \<lparr>rowCount = 0, rows = []\<rparr>, [])"
    by (simp add: w1 scripted_env_def scripted_def affected_def)
  from complete_cancel_one_row [of scripted_env "JStr ''a1''" ?w _ _ "JStr ''a1''" w1
      "\<lparr>rowCount = 0, rows = []\<rparr>" "[]" "''a1''"] c r e2
  have 2: "fst (complete scripted_env (JStr ''a1'') w1)
             = Inl (AssertionError ''Job a1 could not be completed.'')"
    by simp
  have f1: "executeSql scripted_env CancelJobCommand (Params [JStr ''a1'']) (db ?c1)
              = (Inr \<lparr>rowCount = 1, rows = []\<rparr>, [])"
    by (simp add: scripted_env_def scripted_def Manager_def affected_def)
  have f0: "executeSql scripted_env CancelJobCommand (Params [JStr ''a1'']) (db ?c0)
              = (Inr \<lparr>rowCount = 0, rows = []\<rparr>, [])"
    by (simp add: scripted_env_def scripted_def Manager_def affected_def)
  from complete_cancel_one_row [of scripted_env "JStr ''a1''" ?c1 "\<lparr>rowCount = 1, rows = []\<rparr>"
      "[]" _ _ _ _ "''a1''"] f1
  have 3: "fst (cancel scripted_env (JStr ''a1'') ?c1) = Inr (JStr ''a1'')"
    by simp
  from complete_cancel_one_row [of scripted_env "JStr ''a1''" ?c0 "\<lparr>rowCount = 0, rows = []\<rparr>"
      "[]" _ _ _ _ "''a1''"] f0
  have 4: "fst (cancel scripted_env (JStr ''a1'') ?c0)
             = Inl (AssertionError ''Job a1 could not be cancelled.'')"
    by simp
  from c r 2 3 4 show ?thesis
    by blast
qed

section \<open>What publish returns and does to the options\<close>

lemma insertJob_step:
  assumes "executeSql env InsertJobCommand
             (Params (insert_values env (heap w) (JStr (uuid env (idcount w))) name data options off))
             (db w) = (r, d)"
  shows "insertJob env name data options off w =
     (let w1 = w\<lparr>idcount := Suc (idcount w), db := d,
                 calls := calls w @ [(InsertJobCommand,
                   Params (insert_values env (heap w) (JStr (uuid env (idcount w))) name data options off))]\<rparr>
      in case r of
           Inl e \<Rightarrow> (Inl e, w1)
         | Inr res \<Rightarrow>
             if rowCount res = 1 then (Inr (JStr (uuid env (idcount w))), w1)
             else if \<not> truthy (get_prop (heap w) options ''singletonNextSlot'') then (Inr JNull, w1)
             else insertJob env name data options (singletonSeconds_of env (heap w) options)
                    (w1\<lparr>heap := set_prop (set_prop (heap w) options ''startIn''
                                    (singletonSeconds_of env (heap w) options))
                                  options ''singletonNextSlot'' (JBool False)\<rparr>))"
  using assms
  by (subst insertJob.simps) (simp add: execute_def Let_def split: sum.splits)

lemma insertJob_last:
  assumes "\<not> truthy (get_prop (heap w) options ''singletonNextSlot'')"
  shows "snd (insertJob env name data options off w) =
     w\<lparr>idcount := Suc (idcount w),
       db := snd (executeSql env InsertJobCommand
               (Params (insert_values env (heap w) (JStr (uuid env (idcount w))) name data options off))
               (db w)),
       calls := calls w @ [(InsertJobCommand,
                   Params (insert_values env (heap w) (JStr (uuid env (idcount w))) name data options off))]\<rparr>"
proof -
  obtain r d where e: "executeSql env InsertJobCommand
             (Params (insert_values env (heap w) (JStr (uuid env (idcount w))) name data options off))
             (db w) = (r, d)"
    by (cases "executeSql env InsertJobCommand
             (Params (insert_values env (heap w) (JStr (uuid env (idcount w))) name data options off))
             (db w)")
  show ?thesis
    using assms by (simp add: insertJob_step [OF e] e Let_def split: sum.splits)
qed

lemma publish_unfold:
  assumes "publish_getArgs (heap w) args = (Inr (name, data, options), h1)"
  shows "publish env args w = insertJob env name data options JUndefined (w\<lparr>heap := h1\<rparr>)"
  using assms by (simp add: publish_def)

text \<open>
  C1. A publish whose arguments are accepted and whose insert reports \<open>rowCount = 1\<close>
  resolves with the id generated for that insert, on the first insert as on the retry of
  a suppressed one. A publish whose insert reports another \<open>rowCount\<close> and whose options
  have no (or a false) \<open>singletonNextSlot\<close>, with or without a \<open>singletonKey\<close>, resolves
  with null.
\<close>

theorem publish_id_or_null:
  assumes ga: "publish_getArgs (heap w) args = (Inr (name, data, options), h1)"
    and first: "executeSql env InsertJobCommand
             (Params (insert_values env h1 (JStr (uuid env (idcount w))) name data options JUndefined))
             (db w) = (Inr res, d)"
  shows "(rowCount res = 1 \<longrightarrow> fst (publish env args w) = Inr (JStr (uuid env (idcount w))))
       \<and> (rowCount res \<noteq> 1 \<and> \<not> truthy (get_prop h1 options ''singletonNextSlot'') \<longrightarrow>
            fst (publish env args w) = Inr JNull)
       \<and> (rowCount res \<noteq> 1 \<and> truthy (get_prop h1 options ''singletonNextSlot'')
            \<and> executeSql env InsertJobCommand
                 (Params (insert_values env
                    (set_prop (set_prop h1 options ''startIn'' (singletonSeconds_of env h1 options))
                       options ''singletonNextSlot'' (JBool False))
                    (JStr (uuid env (Suc (idcount w)))) name data options
                    (singletonSeconds_of env h1 options)))
                 d = (Inr res2, d2)
            \<and> rowCount res2 = 1 \<longrightarrow>
            fst (publish env args w) = Inr (JStr (uuid env (Suc (idcount w)))))"
proof (intro conjI impI)
  assume "rowCount res = 1"
  then show "fst (publish env args w) = Inr (JStr (uuid env (idcount w)))"
    using first by (simp add: publish_unfold [OF ga] insertJob_step)
next
  assume "rowCount res \<noteq> 1 \<and> \<not> truthy (get_prop h1 options ''singletonNextSlot'')"
  then show "fst (publish env args w) = Inr JNull"
    using first by (simp add: publish_unfold [OF ga] insertJob_step)
next
  assume a: "rowCount res \<noteq> 1 \<and> truthy (get_prop h1 options ''singletonNextSlot'')
            \<and> executeSql env InsertJobCommand
                 (Params (insert_values env
                    (set_prop (set_prop h1 options ''startIn'' (singletonSeconds_of env h1 options))
                       options ''singletonNextSlot'' (JBool False))
                    (JStr (uuid env (Suc (idcount w)))) name data options
                    (singletonSeconds_of env h1 options)))
                 d = (Inr res2, d2)
            \<and> rowCount res2 = 1"
  then show "fst (publish env args w) = Inr (JStr (uuid env (Suc (idcount w))))"
    using first by (simp add: publish_unfold [OF ga] insertJob_step)
qed

theorem publish_id_or_null_witness:
  "fst (publish scripted_env [JStr ''tick'', JNull, JObj 0]
         (Manager [affected 1] default_config
            [[(''singletonKey'', JStr ''k''), (''singletonSeconds'', JNum 60)]]))
     = Inr (JStr ''job-0'')
   \<and> fst (publish scripted_env [JStr ''tick'', JNull, JObj 0]
         (Manager [affected 0] default_config
            [[(''singletonKey'', JStr ''k''), (''singletonSeconds'', JNum 60)]]))
     = Inr JNull
   \<and> fst (publish scripted_env [JStr ''tick'', JNull, JObj 0]
         (Manager [affected 0, affected 1] default_config
            [[(''singletonKey'', JStr ''k''), (''singletonSeconds'', JNum 60),
              (''singletonNextSlot'', JBool True)]]))
     = Inr (JStr ''job-1'')"
proof -
  define h where "h = [[(''singletonKey'', JStr ''k''), (''singletonSeconds'', JNum 60)]]"
  define hn where "hn = [[(''singletonKey'', JStr ''k''), (''singletonSeconds'', JNum 60),
              (''singletonNextSlot'', JBool True)]]"
  define args where "args = [JStr ''tick'', JNull, JObj 0]"
  have ga: "publish_getArgs (heap (Manager script default_config h)) args
              = (Inr (JStr ''tick'', JNull, JObj 0), h)" for script :: "(error + result) list"
    by (simp add: publish_getArgs_def Manager_def args_def arg_def typeof_def truthy_def)
  have gan: "publish_getArgs (heap (Manager script default_config hn)) args
              = (Inr (JStr ''tick'', JNull, JObj 0), hn)" for script :: "(error + result) list"
    by (simp add: publish_getArgs_def Manager_def args_def arg_def typeof_def truthy_def)
  have ex: "executeSql scripted_env InsertJobCommand p (db (Manager (r # script) default_config h'))
              = (r, script)" for p r script h'
    by (simp add: scripted_env_def scripted_def Manager_def)
  have ex2: "executeSql scripted_env InsertJobCommand p [r] = (r, [])" for p r
    by (simp add: scripted_env_def scripted_def)
  have ids: "uuid scripted_env 0 = ''job-0''" "uuid scripted_env (Suc 0) = ''job-1''"
    by code_simp+
  have ic: "idcount (Manager script default_config h') = 0" for script :: "(error + result) list" and h'
    by (simp add: Manager_def)
  have t: "\<not> truthy (get_prop h (JObj 0) ''singletonNextSlot'')"
    "truthy (get_prop hn (JObj 0) ''singletonNextSlot'')"
    unfolding h_def hn_def by code_simp+
  have 1: "fst (publish scripted_env args (Manager [affected 1] default_config h))
             = Inr (JStr ''job-0'')"
    using publish_id_or_null [OF ga ex, of "\<lparr>rowCount = 1, rows = []\<rparr>" "[]"]
    by (simp add: affected_def ids ic)
  have 2: "fst (publish scripted_env args (Manager [affected 0] default_config h)) = Inr JNull"
    using publish_id_or_null [OF ga ex, of "\<lparr>rowCount = 0, rows = []\<rparr>" "[]"] t
    by (simp add: affected_def)
  have 3: "fst (publish scripted_env args (Manager [affected 0, affected 1] default_config hn))
             = Inr (JStr ''job-1'')"
    using publish_id_or_null [OF gan ex, of "\<lparr>rowCount = 0, rows = []\<rparr>" "[affected 1]"
        "\<lparr>rowCount = 1, rows = []\<rparr>" "[]"] t ex2 [of _ "affected 1"]
    by (simp add: affected_def ids ic)
  show ?thesis
    using 1 2 3 unfolding h_def hn_def args_def by blast
qed

lemma not_truthy_undefined: "\<not> truthy JUndefined"
  by (simp add: truthy_def)

lemma publish_getArgs_options:
  assumes "publish_getArgs h args = (Inr (name, data, options), h1)"
  shows "(h1 = h \<and> (options = arg args 2 \<or> options = get_prop h (arg args 0) ''options''))
       \<or> (h1 = h @ [[]] \<and> options = JObj (length h))"
  using assms
  by (auto simp: publish_getArgs_def Let_def new_object_def not_truthy_undefined
        split: if_splits sum.splits prod.splits)

lemma get_prop_fresh: "get_prop (h @ [[]]) (JObj (length h)) k = JUndefined"
  by (simp add: get_prop_def props_def)

lemma not_truthy_False: "\<not> truthy (JBool False)"
  by (simp add: truthy_def)

lemma publish_retry:
  assumes ga: "publish_getArgs (heap w) args = (Inr (name, data, options), h1)"
    and first: "executeSql env InsertJobCommand
             (Params (insert_values env h1 (JStr (uuid env (idcount w))) name data options JUndefined))
             (db w) = (Inr res, d)"
    and suppressed: "rowCount res \<noteq> 1"
    and next_slot: "truthy (get_prop h1 options ''singletonNextSlot'')"
  shows "publish env args w =
     insertJob env name data options (singletonSeconds_of env h1 options)
       (w\<lparr>idcount := Suc (idcount w), db := d,
          calls := calls w @ [(InsertJobCommand,
            Params (insert_values env h1 (JStr (uuid env (idcount w))) name data options JUndefined))],
          heap := set_prop (set_prop h1 options ''startIn'' (singletonSeconds_of env h1 options))
                    options ''singletonNextSlot'' (JBool False)\<rparr>)"
  using first suppressed next_slot
  by (simp add: publish_unfold [OF ga] insertJob_step)

text \<open>
  C10. A publish whose first insert is suppressed and whose options set
  \<open>singletonNextSlot\<close> writes to the options object it was given, an object of the caller
  that existed before the call (the third argument, or the \<open>options\<close> of the job object):
  when the call has settled, its \<open>startIn\<close> is the derived \<open>singletonSeconds\<close>, its
  \<open>singletonNextSlot\<close> is false, and nothing else in the heap has changed.
\<close>

theorem publish_mutates_caller_options:
  assumes ga: "publish_getArgs (heap w) args = (Inr (name, data, options), h1)"
    and first: "executeSql env InsertJobCommand
             (Params (insert_values env h1 (JStr (uuid env (idcount w))) name data options JUndefined))
             (db w) = (Inr res, d)"
    and suppressed: "rowCount res \<noteq> 1"
    and next_slot: "truthy (get_prop h1 options ''singletonNextSlot'')"
  shows "(\<exists>a. options = JObj a \<and> a < length (heap w))
       \<and> (options = arg args 2 \<or> options = get_prop (heap w) (arg args 0) ''options'')
       \<and> get_prop (heap (snd (publish env args w))) options ''startIn''
           = singletonSeconds_of env (heap w) options
       \<and> get_prop (heap (snd (publish env args w))) options ''singletonNextSlot'' = JBool False
       \<and> (\<forall>v k. \<not> (v = options \<and> (k = ''startIn'' \<or> k = ''singletonNextSlot'')) \<longrightarrow>
             get_prop (heap (snd (publish env args w))) v k = get_prop (heap w) v k)"
proof -
  define ss where "ss = singletonSeconds_of env h1 options"
  define h2 where "h2 = set_prop (set_prop h1 options ''startIn'' ss) options
                          ''singletonNextSlot'' (JBool False)"
  from truthy_get_prop_valid [OF next_slot]
  obtain a where a: "options = JObj a" "a < length h1"
    by blast
  from publish_getArgs_options [OF ga] next_slot
  have h1: "h1 = heap w"
    and given: "options = arg args 2 \<or> options = get_prop (heap w) (arg args 0) ''options''"
    by (auto simp: get_prop_fresh not_truthy_undefined)
  have p: "publish env args w =
     insertJob env name data options ss
       (w\<lparr>idcount := Suc (idcount w), db := d,
          calls := calls w @ [(InsertJobCommand,
            Params (insert_values env h1 (JStr (uuid env (idcount w))) name data options JUndefined))],
          heap := h2\<rparr>)"
    unfolding ss_def h2_def by (rule publish_retry [OF ga first suppressed next_slot])
  have g2: "get_prop h2 options ''singletonNextSlot'' = JBool False"
    using a by (simp add: h2_def get_prop_set_prop length_set_prop)
  have "heap (snd (publish env args w)) = h2"
    by (simp add: p insertJob_last g2 not_truthy_False)
  then show ?thesis
    using a given unfolding h2_def ss_def h1
    by (auto simp: get_prop_set_prop length_set_prop)
qed

theorem publish_mutates_caller_options_witness:
  "heap (snd (publish scripted_env [JStr ''tick'', JNull, JObj 0]
         (Manager [affected 0, affected 1] default_config
            [[(''singletonKey'', JStr ''k''), (''singletonMinutes'', JNum 2),
              (''singletonNextSlot'', JBool True)]])))
     = [[(''singletonKey'', JStr ''k''), (''singletonMinutes'', JNum 2),
         (''singletonNextSlot'', JBool False), (''startIn'', JNum 120)]]
   \<and> get_prop (heap (snd (publish scripted_env [JStr ''tick'', JNull, JObj 0]
         (Manager [affected 0, affected 1] default_config
            [[(''singletonKey'', JStr ''k''), (''singletonMinutes'', JNum 2),
              (''singletonNextSlot'', JBool True)]])))) (JObj 0) ''startIn'' = JNum 120"
proof -
  define hn where "hn = [[(''singletonKey'', JStr ''k''), (''singletonMinutes'', JNum 2),
              (''singletonNextSlot'', JBool True)]]"
  define args where "args = [JStr ''tick'', JNull, JObj 0]"
  define w where "w = Manager [affected 0, affected 1] default_config hn"
  have ga: "publish_getArgs (heap w) args = (Inr (JStr ''tick'', JNull, JObj 0), hn)"
    by (simp add: publish_getArgs_def Manager_def args_def arg_def typeof_def truthy_def w_def)
  have ex: "executeSql scripted_env InsertJobCommand p (db w)
              = (Inr \<lparr>rowCount = 0, rows = []\<rparr>, [affected 1])" for p
    by (simp add: scripted_env_def scripted_def Manager_def w_def affected_def)
  have t: "truthy (get_prop hn (JObj 0) ''singletonNextSlot'')"
    unfolding hn_def by code_simp
  have ss: "singletonSeconds_of scripted_env hn (JObj 0) = JNum 120"
    unfolding hn_def by code_simp
  have hw: "heap w = hn"
    by (simp add: w_def Manager_def)
  from publish_mutates_caller_options [OF ga ex _ t]
  have 1: "get_prop (heap (snd (publish scripted_env args w))) (JObj 0) ''startIn'' = JNum 120"
    by (simp add: ss hw)
  have 2: "heap (snd (publish scripted_env args w))
     = [[(''singletonKey'', JStr ''k''), (''singletonMinutes'', JNum 2),
         (''singletonNextSlot'', JBool False), (''startIn'', JNum 120)]]"
    unfolding args_def w_def hn_def by code_simp
  from 1 2 show ?thesis
    unfolding args_def w_def hn_def by blast
qed

lemma publish_rejects_missing_name:
  "(typeof (arg args 0) = ''string'' \<and> arg args 0 = JStr []
      \<or> typeof (arg args 0) = ''object'' \<and> \<not> truthy (get_prop (heap w) (arg args 0) ''name'')
      \<or> typeof (arg args 0) \<noteq> ''string'' \<and> typeof (arg args 0) \<noteq> ''object'')
   \<Longrightarrow> \<exists>msg. fst (publish env args w) = Inl (AssertionError msg)
          \<and> calls (snd (publish env args w)) = calls w"
  by (auto simp: publish_def publish_getArgs_def Let_def truthy_def new_object_def
        not_truthy_undefined split: prod.splits)

lemma publish_positional_rejects_function:
  "typeof (arg args 0) = ''string'' \<Longrightarrow> typeof (arg args 1) = ''function''
   \<Longrightarrow> \<exists>msg. fst (publish env args w) = Inl (AssertionError msg)
          \<and> calls (snd (publish env args w)) = calls w"
  by (simp add: publish_def publish_getArgs_def)

text \<open>
  C3, where the Manager departs from it. Given a function as the payload, the positional
  form \<open>publish(name, data)\<close> fails with the assertion error before any insert, but the
  single-object form \<open>publish({name, data})\<close> has no such check: it runs the insert with
  the function as the payload and resolves with the new id.
\<close>

theorem publish_object_form_accepts_function_payload:
  "publish scripted_env [JStr ''email'', JFun ''function () {}'']
       (Manager [affected 1] default_config [])
     = (Inl (AssertionError
         ''publish() cannot accept a function as the payload.  Did you intend to use subscribe()?''),
        Manager [affected 1] default_config [])
   \<and> fst (publish scripted_env [JObj 0]
         (Manager [affected 1] default_config
            [[(''name'', JStr ''email''), (''data'', JFun ''function () {}'')]]))
     = Inr (JStr ''job-0'')
   \<and> calls (snd (publish scripted_env [JObj 0]
         (Manager [affected 1] default_config
            [[(''name'', JStr ''email''), (''data'', JFun ''function () {}'')]])))
     = [(InsertJobCommand, Params [JStr ''job-0'', JStr ''email'', JNum 0, JStr ''0'',
           JStr ''15 minutes'', JFun ''function () {}'', JNull, JNull, JNum 0])]"
  by code_simp

section \<open>The workers that subscribe starts\<close>


lemma register_loop_count:
  "register_loop env c options i w =
     w\<lparr>workers := workers w @
        replicate (case to_number env (get_prop (heap w) options ''teamSize'') of
                     Some n \<Rightarrow> nat (\<lceil>n\<rceil> - i) | None \<Rightarrow> 0)
          (worker_start (new_Worker c))\<rparr>"
proof (induction env c options i w rule: register_loop.induct)
  case (1 env c options i w)
  show ?case
  proof (cases "js_less env i (get_prop (heap w) options ''teamSize'')")
    case True
    then obtain n where n: "to_number env (get_prop (heap w) options ''teamSize'') = Some n"
      "i < \<lceil>n\<rceil>"
      by (auto simp: js_less_def less_ceiling_iff split: option.splits)
    then have "nat (\<lceil>n\<rceil> - i) = Suc (nat (\<lceil>n\<rceil> - (i + 1)))"
      by simp
    then show ?thesis
      using 1 [OF True] True n
      by (subst register_loop.simps) (simp add: replicate_app_Cons_same)
  next
    case False
    then have "(case to_number env (get_prop (heap w) options ''teamSize'') of
                     Some n \<Rightarrow> nat (\<lceil>n\<rceil> - i) | None \<Rightarrow> 0) = 0"
      by (auto simp: js_less_def ceiling_le_iff not_less split: option.splits)
    then show ?thesis
      using False by (subst register_loop.simps) simp
  qed
qed

lemma register_workers:
  "register env name options callback w =
     w\<lparr>workers := workers w @
        replicate (team env (get_prop (heap w) options ''teamSize''))
          \<lparr>wconfig = \<lparr>cfg_name = name, cfg_fetcher = Fetch name, cfg_responder = OnJob callback,
                      cfg_error = OnError,
                      cfg_interval = get_prop (heap w) options ''newJobCheckInterval''\<rparr>,
           running = True\<rparr>\<rparr>"
  by (simp add: register_def register_loop_count team_def worker_start_def new_Worker_def
        split: option.splits)




lemma truthy_JObj: "truthy (JObj a)"
  by (simp add: truthy_def)








section \<open>The monitor's timer, sweep errors and stop\<close>

lemma execute_clock: "execute env c p w = (r, w1) \<Longrightarrow> clock w1 = clock w"
  by (auto simp: execute_def clock_def split: prod.splits)

lemma clock_heap: "clock (w\<lparr>heap := h\<rparr>) = clock w"
  by (simp add: clock_def)

lemma emit_clock: "emit ev w = (x, w1) \<Longrightarrow> clock w1 = clock w"
  by (auto simp: emit_def clock_def)

lemma expire_then_clock: "expire_then r w = (x, w1) \<Longrightarrow> clock w1 = clock w"
  by (auto simp: expire_then_def split: sum.splits if_splits dest: emit_clock)

lemma insertJob_call_clock: "clock (insertJob_call env t name data options off w) = clock w"
  by (auto simp: insertJob_call_def Let_def execute_def clock_def split: prod.splits)

lemma settle_clock: "clock (settle t r w) = clock w"
  by (simp add: settle_def clock_def)

lemma insertJob_then_clock:
  "clock (insertJob_then env t name data options ss jobid r w) = clock w"
  by (simp add: insertJob_then_def settle_clock insertJob_call_clock clock_heap split: sum.splits)

lemma publish_call_clock: "clock (publish_call env args w) = clock w"
  by (auto simp: publish_call_def settle_clock split: prod.splits sum.splits)
     (simp_all add: clock_def)

lemma clock_publishing: "clock (w\<lparr>publishing := p\<rparr>) = clock w"
  by (simp add: clock_def)

lemma publish_step_clock: "clock (publish_step env i w) = clock w"
  by (simp add: publish_step_def insertJob_call_clock insertJob_then_clock clock_publishing
        split: task.splits)

lemma add_listener_clock: "clock (add_listener t r w) = clock w"
  by (simp add: add_listener_def clock_def)

lemma subscribe_clock: "clock (snd (subscribe env name args w)) = clock w"
  by (auto simp: subscribe_def register_workers clock_def split: prod.splits sum.splits)

lemma fetch_clock: "clock (snd (fetch env name w)) = clock w"
  by (auto simp: fetch_def split: prod.splits sum.splits dest: execute_clock)

lemma complete_clock: "clock (snd (complete env jobid w)) = clock w"
  by (auto simp: complete_def split: prod.splits sum.splits dest: execute_clock)

lemma cancel_clock: "clock (snd (cancel env jobid w)) = clock w"
  by (auto simp: cancel_def split: prod.splits sum.splits dest: execute_clock)

lemma idle_clock: "clock w' = clock w \<Longrightarrow> idle w' = idle w"
  by (simp add: clock_def idle_def)

lemma monitoring_clock: "clock w' = clock w \<Longrightarrow> monitoring w' = monitoring w"
  by (simp add: clock_def monitoring_def)

lemma init_stopped: "stopped w \<Longrightarrow> init w = w"
  by (simp add: init_def)

lemma idle_monitoring: "idle w \<Longrightarrow> monitoring w"
  by (simp add: idle_def monitoring_def)

lemma init_monitoring: "idle w \<Longrightarrow> monitoring (init w)"
  by (simp add: idle_def monitoring_def init_def setTimeout_def)

lemma monitor_monitoring: "idle w \<Longrightarrow> monitoring (monitor env w)"
  by (auto simp: monitor_def expire_def execute_def idle_def monitoring_def split: prod.splits)

lemma stop_call_idle: "idle w \<Longrightarrow> idle (stop_call w)"
  by (simp add: stop_call_def close_def idle_def)

lemma stop_then_idle: "idle w \<Longrightarrow> idle (stop_then w)"
  by (simp add: stop_then_def clearTimeout_def idle_def split: option.splits)

lemma stop_call_monitoring: "monitoring w \<Longrightarrow> monitoring (stop_call w)"
  by (simp add: stop_call_def close_def monitoring_def)

lemma stop_then_monitoring: "monitoring w \<Longrightarrow> monitoring (stop_then w)"
  by (cases "timers w")
     (auto simp: stop_then_def clearTimeout_def monitoring_def split: option.splits)

lemma sweep_done_cases:
  assumes "i < length (inflight w)"
  shows "\<exists>w1. clock w1 = clock (w\<lparr>inflight := take i (inflight w) @ drop (Suc i) (inflight w)\<rparr>)
            \<and> (sweep_done i w = init w1 \<or> clock (sweep_done i w) = clock w1)"
proof -
  define w0 where "w0 = w\<lparr>inflight := take i (inflight w) @ drop (Suc i) (inflight w)\<rparr>"
  obtain k r where kr: "inflight w ! i = (k, r)"
    by (cases "inflight w ! i")
  obtain x w1 where e: "expire_then r w0 = (x, w1)"
    by (cases "expire_then r w0")
  have c1: "clock w1 = clock w0"
    by (rule expire_then_clock [OF e])
  show ?thesis
  proof (cases x)
    case None
    with assms kr e c1 show ?thesis
      unfolding w0_def by (auto simp: sweep_done_def)
  next
    case (Some err)
    show ?thesis
    proof (cases k)
      case Initial
      with Some assms kr e have "clock (sweep_done i w) = clock w1"
        unfolding w0_def by (simp add: sweep_done_def clock_def)
      with c1 show ?thesis
        unfolding w0_def by blast
    next
      case Tick
      obtain y w2 where m: "emit (ErrorEvent err) w1 = (y, w2)"
        by (cases "emit (ErrorEvent err) w1")
      have c2: "clock w2 = clock w0"
        using emit_clock [OF m] c1 by simp
      from Tick Some assms kr e m
      have "sweep_done i w = init w2 \<or> clock (sweep_done i w) = clock w2"
        unfolding w0_def by (cases y) (simp_all add: sweep_done_def clock_def)
      with c2 show ?thesis
        unfolding w0_def by blast
    qed
  qed
qed

lemma sweep_done_monitoring: "monitoring w \<Longrightarrow> monitoring (sweep_done i w)"
proof (cases "i < length (inflight w)")
  case False
  assume "monitoring w"
  with False show ?thesis
    by (simp add: sweep_done_def)
next
  case True
  assume m: "monitoring w"
  with True have "timers w = []" and "length (inflight w) = 1"
    by (cases "timers w"; cases "inflight w"; auto simp: monitoring_def)+
  with True have "idle (w\<lparr>inflight := take i (inflight w) @ drop (Suc i) (inflight w)\<rparr>)"
    by (simp add: idle_def)
  with sweep_done_cases [OF True] obtain w1 where "idle w1"
    and "sweep_done i w = init w1 \<or> clock (sweep_done i w) = clock w1"
    using idle_clock by blast
  then show ?thesis
    using init_monitoring idle_monitoring monitoring_clock by metis
qed

lemma timer_fire_monitoring: "monitoring w \<Longrightarrow> monitoring (timer_fire env t w)"
proof (cases "t \<in> fst ` set (timers w)")
  case False
  assume "monitoring w"
  with False show ?thesis
    by (simp add: timer_fire_def)
next
  case True
  assume m: "monitoring w"
  with True have f: "inflight w = []" and l: "length (timers w) = 1"
    by (cases "timers w"; auto simp: monitoring_def)+
  from l obtain t' delay where ts: "timers w = [(t', delay)]"
    by (cases "timers w") auto
  with True have "t' = t"
    by simp
  with m ts f show ?thesis
    by (auto simp: timer_fire_def check_def expire_def execute_def clearTimeout_def monitoring_def
          split: prod.splits)
qed

lemma sweep_done_idle: "idle w \<Longrightarrow> sweep_done i w = w"
  by (simp add: sweep_done_def idle_def)

lemma timer_fire_idle: "idle w \<Longrightarrow> timer_fire env t w = w"
  by (simp add: timer_fire_def idle_def)

lemma step_idle: "a \<noteq> CallMonitor \<Longrightarrow> idle w \<Longrightarrow> idle (step env w a)"
  by (cases a)
     (simp_all add: stop_call_idle stop_then_idle sweep_done_idle timer_fire_idle
        idle_clock [OF add_listener_clock] idle_clock [OF publish_call_clock]
        idle_clock [OF publish_step_clock] idle_clock [OF subscribe_clock]
        idle_clock [OF fetch_clock] idle_clock [OF complete_clock]
        idle_clock [OF cancel_clock])

lemma step_monitoring: "a \<noteq> CallMonitor \<Longrightarrow> monitoring w \<Longrightarrow> monitoring (step env w a)"
  by (cases a)
     (simp_all add: stop_call_monitoring stop_then_monitoring sweep_done_monitoring
        timer_fire_monitoring monitoring_clock [OF add_listener_clock]
        monitoring_clock [OF publish_call_clock] monitoring_clock [OF publish_step_clock]
        monitoring_clock [OF subscribe_clock] monitoring_clock [OF fetch_clock]
        monitoring_clock [OF complete_clock] monitoring_clock [OF cancel_clock])

lemma run_monitoring:
  "CallMonitor \<notin> set acts \<Longrightarrow> monitoring w \<Longrightarrow> monitoring (run env acts w)"
  unfolding run_def
  by (induction acts arbitrary: w) (auto simp: step_monitoring)

lemma run_once_monitoring:
  "count_list acts CallMonitor \<le> 1 \<Longrightarrow> idle w \<Longrightarrow> monitoring (run env acts w)"
proof (induction acts arbitrary: w)
  case Nil
  then show ?case
    by (simp add: run_def idle_monitoring)
next
  case (Cons a acts)
  show ?case
  proof (cases "a = CallMonitor")
    case True
    with Cons.prems have "CallMonitor \<notin> set acts"
      by (auto simp: count_list_0_iff)
    from run_monitoring [OF this monitor_monitoring [OF Cons.prems(2)]] True show ?thesis
      by (simp add: run_def)
  next
    case False
    with Cons.prems have "count_list acts CallMonitor \<le> 1"
      by simp
    from Cons.IH [OF this step_idle [OF False Cons.prems(2)]] show ?thesis
      by (simp add: run_def)
  qed
qed

lemma stop_idem: "stop (stop w) = stop w"
  by (simp add: stop_def stop_call_def stop_then_def close_def clearTimeout_def split: option.splits)

lemma clock_stopped: "clock w' = clock w \<Longrightarrow> stopped w' = stopped w"
  by (simp add: clock_def)

lemma init_keeps_stopped: "stopped w \<Longrightarrow> stopped (init w)"
  by (simp add: init_def)

lemma sweep_done_stopped: "stopped w \<Longrightarrow> stopped (sweep_done i w)"
proof (cases "i < length (inflight w)")
  case False
  assume "stopped w"
  with False show ?thesis
    by (simp add: sweep_done_def)
next
  case True
  assume s: "stopped w"
  then have "stopped (w\<lparr>inflight := take i (inflight w) @ drop (Suc i) (inflight w)\<rparr>)"
    by simp
  with sweep_done_cases [OF True] obtain w1 where "stopped w1"
    and "sweep_done i w = init w1 \<or> clock (sweep_done i w) = clock w1"
    using clock_stopped by blast
  then show ?thesis
    using init_keeps_stopped clock_stopped by metis
qed

lemma step_stopped: "stopped w \<Longrightarrow> stopped (step env w a)"
  by (cases a)
     (auto simp: monitor_def expire_def execute_def sweep_done_stopped
        timer_fire_def check_def clearTimeout_def stop_call_def close_def stop_then_def
        clock_stopped [OF add_listener_clock] clock_stopped [OF publish_call_clock]
        clock_stopped [OF publish_step_clock] clock_stopped [OF subscribe_clock]
        clock_stopped [OF fetch_clock] clock_stopped [OF complete_clock]
        clock_stopped [OF cancel_clock]
        split: prod.splits option.splits)

lemma run_stopped: "stopped w \<Longrightarrow> stopped (run env acts w)"
  unfolding run_def
  by (induction acts arbitrary: w) (auto simp: step_stopped)

lemma stopped_stop: "stopped (stop w)"
  by (simp add: stop_def stop_call_def stop_then_def close_def clearTimeout_def split: option.splits)

lemma idle_Manager: "idle (Manager d c h)"
  by (simp add: idle_def Manager_def)

text \<open>
  C7, as amended. \<open>stop()\<close> run twice leaves the Manager as \<open>stop()\<close> run once
  does. It sets the stopped flag, and with the flag set \<open>init\<close> returns without
  scheduling a timer. So, on a Manager whose \<open>monitor()\<close> is called at most once,
  whatever else is called and however the sweeps, timers and continuations interleave:
  once a \<open>stop()\<close> has completed the flag stays set and no expiration timer is armed,
  then and ever after.
\<close>

theorem stop_idempotent_leaves_no_timer:
  "stop (stop w) = stop w
   \<and> stopped (stop w)
   \<and> (stopped w \<longrightarrow> init w = w)
   \<and> (count_list acts CallMonitor \<le> 1 \<and> stopped (run env acts (Manager d c h)) \<longrightarrow>
        timers (run env acts (Manager d c h)) = [])
   \<and> (count_list (before @ after) CallMonitor \<le> 1 \<longrightarrow>
        stopped (run env (before @ [CallStop, StopThen] @ after) (Manager d c h))
        \<and> timers (run env (before @ [CallStop, StopThen] @ after) (Manager d c h)) = [])"
proof (intro conjI impI)
  show "stop (stop w) = stop w"
    by (rule stop_idem)
  show "stopped (stop w)"
    by (rule stopped_stop)
  show "init w = w" if "stopped w"
    using that by (rule init_stopped)
  show "timers (run env acts (Manager d c h)) = []"
    if "count_list acts CallMonitor \<le> 1 \<and> stopped (run env acts (Manager d c h))"
    using run_once_monitoring [of acts "Manager d c h" env] that idle_Manager [of d c h]
    by (simp add: monitoring_def)
  assume a: "count_list (before @ after) CallMonitor \<le> 1"
  have eq: "run env (before @ [CallStop, StopThen] @ after) (Manager d c h)
              = run env after (stop (run env before (Manager d c h)))"
    by (simp add: run_def stop_def)
  show st: "stopped (run env (before @ [CallStop, StopThen] @ after) (Manager d c h))"
    unfolding eq by (rule run_stopped [OF stopped_stop])
  from a have "count_list (before @ [CallStop, StopThen] @ after) CallMonitor \<le> 1"
    by simp
  from run_once_monitoring [OF this idle_Manager, of env d c h] st
  show "timers (run env (before @ [CallStop, StopThen] @ after) (Manager d c h)) = []"
    by (simp add: monitoring_def)
qed

theorem stop_idempotent_leaves_no_timer_witness:
  "count_list [CallMonitor, SweepDone 0, TimerFire 0, CallStop, StopThen, SweepDone 0] CallMonitor \<le> 1
   \<and> stopped (run scripted_env [CallMonitor, SweepDone 0, TimerFire 0, CallStop, StopThen, SweepDone 0]
        (Manager [affected 0, affected 2] default_config []))
   \<and> timers (run scripted_env [CallMonitor, SweepDone 0, TimerFire 0, CallStop, StopThen, SweepDone 0]
        (Manager [affected 0, affected 2] default_config [])) = []
   \<and> events (run scripted_env [CallMonitor, SweepDone 0, TimerFire 0, CallStop, StopThen, SweepDone 0]
        (Manager [affected 0, affected 2] default_config [])) = [ExpiredEvent 2]"
proof -
  define acts where "acts = [CallMonitor, SweepDone 0, TimerFire 0, CallStop, StopThen, SweepDone 0]"
  define w where "w = run scripted_env acts (Manager [affected 0, affected 2] default_config [])"
  have c: "count_list acts CallMonitor \<le> 1"
    by (simp add: acts_def)
  have s: "stopped w"
    unfolding w_def acts_def by code_simp
  have e: "events w = [ExpiredEvent 2]"
    unfolding w_def acts_def by code_simp
  from stop_idempotent_leaves_no_timer [of _ acts scripted_env "[affected 0, affected 2]"
      default_config "[]"] c s
  have "timers w = []"
    unfolding w_def by blast
  with c s e show ?thesis
    unfolding w_def acts_def by blast
qed

theorem stop_after_two_monitors_counterexample:
  "stopped (run scripted_env [CallMonitor, CallMonitor, SweepDone 0, SweepDone 0, CallStop, StopThen]
       (Manager [affected 0, affected 0] default_config []))
   \<and> expireTimer (run scripted_env
         [CallMonitor, CallMonitor, SweepDone 0, SweepDone 0, CallStop, StopThen]
         (Manager [affected 0, affected 0] default_config [])) = Some 1
   \<and> timers (run scripted_env [CallMonitor, CallMonitor, SweepDone 0, SweepDone 0, CallStop, StopThen]
       (Manager [affected 0, affected 0] default_config [])) = [(0, JNum 60000)]"
  by code_simp

lemma quiet_first_throw: "quiet w t \<longleftrightarrow> first_throw (hearing w t) = None"
proof -
  have "list_all (\<lambda>r. r = Returns) rs \<longleftrightarrow> first_throw rs = None" for rs
    by (induction rs rule: first_throw.induct) auto
  then show ?thesis
    by (simp add: quiet_def)
qed

lemma expire_then_error:
  "expire_then r w =
     (sweep_error w r, w\<lparr>events := events w @ expired_events r\<rparr>)"
  by (simp add: expire_then_def sweep_error_def expired_events_def emit_def hearing_def
        split: sum.splits)

lemma emit_error:
  "emit (ErrorEvent e) w =
     (if hearing w ErrorTopic = [] then Some e else first_throw (hearing w ErrorTopic),
      w\<lparr>events := events w @ [ErrorEvent e]\<rparr>)"
  by (simp add: emit_def)

lemma hearing_frame:
  "hearing (w\<lparr>inflight := x\<rparr>) t = hearing w t" "hearing (w\<lparr>events := y\<rparr>) t = hearing w t"
  by (simp_all add: hearing_def)

lemma sweep_error_frame: "sweep_error (w\<lparr>inflight := x\<rparr>) r = sweep_error w r"
  by (cases r) (simp_all add: sweep_error_def hearing_def)

lemma sweep_done_tick_error:
  assumes "i < length (inflight w)" "inflight w ! i = (Tick, r)" "sweep_error w r = Some e"
  shows "sweep_done i w =
     (let w2 = w\<lparr>inflight := take i (inflight w) @ drop (Suc i) (inflight w),
                 events := events w @ expired_events r @ [ErrorEvent e]\<rparr>
      in case (if hearing w ErrorTopic = [] then Some e else first_throw (hearing w ErrorTopic)) of
           None \<Rightarrow> init w2
         | Some x \<Rightarrow> w2\<lparr>unhandled := unhandled w @ [x]\<rparr>)"
  using assms
  by (simp add: sweep_done_def expire_then_error emit_error sweep_error_frame hearing_frame Let_def
        cong: option.case_cong)

lemma sweep_done_initial_error:
  assumes "i < length (inflight w)" "inflight w ! i = (Initial, r)" "sweep_error w r = Some e"
  shows "sweep_done i w =
     w\<lparr>inflight := take i (inflight w) @ drop (Suc i) (inflight w),
       events := events w @ expired_events r, rejected := rejected w @ [e]\<rparr>"
  using assms
  by (simp add: sweep_done_def expire_then_error sweep_error_frame)

text \<open>
  C6, as amended. A sweep started by \<open>monitor()\<close> waits with the continuation of
  \<open>monitor\<close>, a sweep started by a timer with that of \<open>check\<close>. When a timer's sweep
  raises an error, \<open>emit('error', error)\<close> is called and nothing is rejected to a caller.
  On a Manager that has a listener of \<open>error\<close>, none of which throws, that is all: the
  monitor arms a new timer, unless the Manager is stopped. On a Manager without a listener
  of \<open>error\<close>, or with one that throws, \<open>emit\<close> throws: no timer is armed, and what was
  thrown is a rejection that no one handles. When the initial sweep of \<open>monitor()\<close> raises
  an error, the error rejects the promise that \<open>monitor()\<close> returned: \<open>emit('error', error)\<close>
  is not called and no timer is armed.
\<close>

theorem sweep_error_emitted_or_rejected:
  "(executeSql env ExpireJobCommand NoParams (db w) = (r, d) \<longrightarrow>
      inflight (monitor env w) = inflight w @ [(Initial, r)]
      \<and> (t \<in> fst ` set (timers w) \<longrightarrow> inflight (timer_fire env t w) = inflight w @ [(Tick, r)]))
   \<and> sweep_error w (Inl e) = Some e
   \<and> (i < length (inflight w) \<and> inflight w ! i = (Tick, r) \<and> sweep_error w r = Some e \<longrightarrow>
        events (sweep_done i w) = events w @ expired_events r @ [ErrorEvent e]
        \<and> rejected (sweep_done i w) = rejected w
        \<and> (hearing w ErrorTopic \<noteq> [] \<and> quiet w ErrorTopic \<longrightarrow>
             unhandled (sweep_done i w) = unhandled w
             \<and> (if stopped w then timers (sweep_done i w) = timers w
                 else timers (sweep_done i w)
                        = timers w @ [(next_timer w, expireCheckInterval (config w))]
                    \<and> expireTimer (sweep_done i w) = Some (next_timer w)))
        \<and> (hearing w ErrorTopic = [] \<longrightarrow>
             unhandled (sweep_done i w) = unhandled w @ [e]
             \<and> timers (sweep_done i w) = timers w
             \<and> expireTimer (sweep_done i w) = expireTimer w)
        \<and> (\<forall>x. first_throw (hearing w ErrorTopic) = Some x \<longrightarrow>
             unhandled (sweep_done i w) = unhandled w @ [x]
             \<and> timers (sweep_done i w) = timers w
             \<and> expireTimer (sweep_done i w) = expireTimer w))
   \<and> (i < length (inflight w) \<and> inflight w ! i = (Initial, r) \<and> sweep_error w r = Some e \<longrightarrow>
        events (sweep_done i w) = events w @ expired_events r
        \<and> rejected (sweep_done i w) = rejected w @ [e]
        \<and> unhandled (sweep_done i w) = unhandled w
        \<and> timers (sweep_done i w) = timers w
        \<and> expireTimer (sweep_done i w) = expireTimer w)"
proof (intro conjI impI)
  show "inflight (monitor env w) = inflight w @ [(Initial, r)]"
    if "executeSql env ExpireJobCommand NoParams (db w) = (r, d)"
    using that by (simp add: monitor_def expire_def execute_def)
  show "inflight (timer_fire env t w) = inflight w @ [(Tick, r)]"
    if "executeSql env ExpireJobCommand NoParams (db w) = (r, d)" "t \<in> fst ` set (timers w)"
    using that by (simp add: timer_fire_def check_def expire_def execute_def clearTimeout_def)
  show "sweep_error w (Inl e) = Some e"
    by (simp add: sweep_error_def)
next
  assume a: "i < length (inflight w) \<and> inflight w ! i = (Tick, r) \<and> sweep_error w r = Some e"
  then have s: "sweep_done i w =
     (let w2 = w\<lparr>inflight := take i (inflight w) @ drop (Suc i) (inflight w),
                 events := events w @ expired_events r @ [ErrorEvent e]\<rparr>
      in case (if hearing w ErrorTopic = [] then Some e else first_throw (hearing w ErrorTopic)) of
           None \<Rightarrow> init w2
         | Some x \<Rightarrow> w2\<lparr>unhandled := unhandled w @ [x]\<rparr>)"
    by (intro sweep_done_tick_error) simp_all
  show "events (sweep_done i w) = events w @ expired_events r @ [ErrorEvent e]"
    by (simp add: s Let_def init_def setTimeout_def split: option.splits)
  show "rejected (sweep_done i w) = rejected w"
    by (simp add: s Let_def init_def setTimeout_def split: option.splits)
  show "unhandled (sweep_done i w) = unhandled w"
    if "hearing w ErrorTopic \<noteq> [] \<and> quiet w ErrorTopic"
    using that by (simp add: s quiet_first_throw Let_def init_def setTimeout_def)
  show "if stopped w then timers (sweep_done i w) = timers w
        else timers (sweep_done i w) = timers w @ [(next_timer w, expireCheckInterval (config w))]
           \<and> expireTimer (sweep_done i w) = Some (next_timer w)"
    if "hearing w ErrorTopic \<noteq> [] \<and> quiet w ErrorTopic"
    using that by (simp add: s quiet_first_throw Let_def init_def setTimeout_def)
  show "unhandled (sweep_done i w) = unhandled w @ [e]"
    "timers (sweep_done i w) = timers w" "expireTimer (sweep_done i w) = expireTimer w"
    if "hearing w ErrorTopic = []"
    using that by (simp_all add: s)
  show "\<forall>x. first_throw (hearing w ErrorTopic) = Some x \<longrightarrow>
             unhandled (sweep_done i w) = unhandled w @ [x]
             \<and> timers (sweep_done i w) = timers w
             \<and> expireTimer (sweep_done i w) = expireTimer w"
    by (cases "hearing w ErrorTopic") (simp_all add: s)
next
  assume a: "i < length (inflight w) \<and> inflight w ! i = (Initial, r) \<and> sweep_error w r = Some e"
  then have s: "sweep_done i w =
     w\<lparr>inflight := take i (inflight w) @ drop (Suc i) (inflight w),
       events := events w @ expired_events r, rejected := rejected w @ [e]\<rparr>"
    by (intro sweep_done_initial_error) simp_all
  show "events (sweep_done i w) = events w @ expired_events r"
    "rejected (sweep_done i w) = rejected w @ [e]"
    "unhandled (sweep_done i w) = unhandled w"
    "timers (sweep_done i w) = timers w"
    "expireTimer (sweep_done i w) = expireTimer w"
    by (simp_all add: s)
qed

theorem sweep_error_emitted_or_rejected_witness:
  "events (run scripted_env
       [AddListener ErrorTopic Returns, CallMonitor, SweepDone 0, TimerFire 0, SweepDone 0]
       (Manager [affected 0, Inl (StorageError ''connection lost'')] default_config []))
     = [ErrorEvent (StorageError ''connection lost'')]
   \<and> timers (run scripted_env
       [AddListener ErrorTopic Returns, CallMonitor, SweepDone 0, TimerFire 0, SweepDone 0]
       (Manager [affected 0, Inl (StorageError ''connection lost'')] default_config []))
     = [(1, JNum 60000)]
   \<and> unhandled (run scripted_env
       [AddListener ErrorTopic Returns, CallMonitor, SweepDone 0, TimerFire 0, SweepDone 0]
       (Manager [affected 0, Inl (StorageError ''connection lost'')] default_config []))
     = []"
proof -
  define w where "w = run scripted_env [AddListener ErrorTopic Returns, CallMonitor, SweepDone 0,
       TimerFire 0]
       (Manager [affected 0, Inl (StorageError ''connection lost'')] default_config [])"
  define r :: "error + result" where "r = Inl (StorageError ''connection lost'')"
  have i: "0 < length (inflight w) \<and> inflight w ! 0 = (Tick, r)
           \<and> sweep_error w r = Some (StorageError ''connection lost'')"
    unfolding w_def r_def by code_simp
  have l: "hearing w ErrorTopic \<noteq> [] \<and> quiet w ErrorTopic"
    unfolding w_def by code_simp
  have e: "events w = []" "timers w = []" "\<not> stopped w" "next_timer w = 1"
    "expireCheckInterval (config w) = JNum 60000" "unhandled w = []" "expired_events r = []"
    unfolding w_def r_def by code_simp+
  from sweep_error_emitted_or_rejected [where env = scripted_env and w = w and i = 0 and r = r
      and e = "StorageError ''connection lost''"] i l
  have "events (sweep_done 0 w) = [ErrorEvent (StorageError ''connection lost'')]
      \<and> timers (sweep_done 0 w) = [(1, JNum 60000)]
      \<and> unhandled (sweep_done 0 w) = []"
    by (simp add: e)
  moreover have "run scripted_env
       [AddListener ErrorTopic Returns, CallMonitor, SweepDone 0, TimerFire 0, SweepDone 0]
       (Manager [affected 0, Inl (StorageError ''connection lost'')] default_config [])
     = sweep_done 0 w"
    by (simp add: w_def run_def)
  ultimately show ?thesis
    by simp
qed

theorem sweep_error_not_emitted_counterexample:
  "events (run scripted_env [AddListener ErrorTopic Returns, CallMonitor, SweepDone 0]
       (Manager [Inl (StorageError ''connection lost'')] default_config [])) = []
   \<and> timers (run scripted_env [AddListener ErrorTopic Returns, CallMonitor, SweepDone 0]
       (Manager [Inl (StorageError ''connection lost'')] default_config [])) = []
   \<and> rejected (run scripted_env [AddListener ErrorTopic Returns, CallMonitor, SweepDone 0]
       (Manager [Inl (StorageError ''connection lost'')] default_config []))
     = [StorageError ''connection lost'']
   \<and> timers (run scripted_env [CallMonitor, SweepDone 0, TimerFire 0, SweepDone 0]
       (Manager [affected 0, Inl (StorageError ''connection lost'')] default_config [])) = []
   \<and> inflight (run scripted_env [CallMonitor, SweepDone 0, TimerFire 0, SweepDone 0]
       (Manager [affected 0, Inl (StorageError ''connection lost'')] default_config [])) = []
   \<and> unhandled (run scripted_env [CallMonitor, SweepDone 0, TimerFire 0, SweepDone 0]
       (Manager [affected 0, Inl (StorageError ''connection lost'')] default_config []))
     = [StorageError ''connection lost'']"
  by code_simp

section \<open>publish in pieces\<close>

lemma get_prop_alloc: "get_prop (h @ [[]]) ob k = get_prop h ob k"
  by (cases ob) (auto simp: get_prop_def props_def nth_append)

lemma get_prop_alloc2: "get_prop (h @ [[], []]) ob k = get_prop h ob k"
  using get_prop_alloc [of "h @ [[]]" ob k] get_prop_alloc [of h ob k] by simp

lemma publish_getArgs_heap:
  "publish_getArgs h args = (r, h') \<Longrightarrow> get_prop h' ob k = get_prop h ob k"
  by (auto simp: publish_getArgs_def Let_def new_object_def get_prop_alloc
        split: if_splits sum.splits prod.splits)

lemma heap_insertJob_call: "heap (insertJob_call env t name data options off w) = heap w"
  by (auto simp: insertJob_call_def Let_def execute_def split: prod.splits)

lemma flag_insertJob_then:
  assumes "get_prop (heap w) ob ''singletonNextSlot'' = JBool False"
  shows "get_prop (heap (insertJob_then env t name data options ss jobid r w)) ob
           ''singletonNextSlot'' = JBool False"
  using assms
  by (auto simp: insertJob_then_def settle_def heap_insertJob_call get_prop_set_prop
        split: sum.splits)

lemma flag_publish_step:
  assumes "get_prop (heap w) ob ''singletonNextSlot'' = JBool False"
  shows "get_prop (heap (publish_step env i w)) ob ''singletonNextSlot'' = JBool False"
  using assms
  by (auto simp: publish_step_def heap_insertJob_call flag_insertJob_then split: task.splits)

lemma flag_publish_call:
  assumes "get_prop (heap w) ob ''singletonNextSlot'' = JBool False"
  shows "get_prop (heap (publish_call env args w)) ob ''singletonNextSlot'' = JBool False"
  using assms
  by (auto simp: publish_call_def settle_def publish_getArgs_heap split: prod.splits sum.splits)

lemma subscribe_getArgs_heap:
  assumes "attorney_contract env" "subscribe_getArgs env c h name args = (r, h')"
    "k \<noteq> ''newJobCheckInterval''" "k \<noteq> ''teamSize''"
  shows "get_prop h' ob k = get_prop h ob k"
proof -
  have a: "get_prop h4 ob k = get_prop h3 ob k"
    if "applyNewJobCheckInterval env h3 v = (x, h4)" for h3 h4 v x
    using attorney_contract_frame [OF assms(1) that assms(3)] .
  from assms(2-4) show ?thesis
    by (auto simp: subscribe_getArgs_def Let_def new_object_def get_prop_alloc get_prop_alloc2
          get_prop_set_prop a truthy_JObj
          split: if_splits prod.splits sum.splits)
qed

lemma flag_subscribe:
  assumes "attorney_contract env" "get_prop (heap w) ob ''singletonNextSlot'' = JBool False"
  shows "get_prop (heap (snd (subscribe env name args w))) ob ''singletonNextSlot'' = JBool False"
proof -
  obtain r h' where g: "subscribe_getArgs env (config w) (heap w) name args = (r, h')"
    by (cases "subscribe_getArgs env (config w) (heap w) name args")
  have "get_prop h' ob ''singletonNextSlot'' = get_prop (heap w) ob ''singletonNextSlot''"
    by (rule subscribe_getArgs_heap [OF assms(1) g]) simp_all
  with assms(2) g show ?thesis
    by (auto simp: subscribe_def register_workers split: sum.splits)
qed

lemma heap_sweep_done: "heap (sweep_done i w) = heap w"
  by (auto simp: sweep_done_def expire_then_def emit_def init_def setTimeout_def
        split: prod.splits sum.splits sweep.splits option.splits)

lemma flag_step:
  assumes "attorney_contract env" "get_prop (heap w) ob ''singletonNextSlot'' = JBool False"
  shows "get_prop (heap (step env w a)) ob ''singletonNextSlot'' = JBool False"
proof (cases a)
  case (CallSubscribe name args)
  with flag_subscribe [OF assms] show ?thesis
    by simp
next
  case (CallPublish args)
  with flag_publish_call [OF assms(2)] show ?thesis
    by simp
next
  case (PublishStep i)
  with flag_publish_step [OF assms(2)] show ?thesis
    by simp
qed (use assms(2) in \<open>auto simp: monitor_def expire_def execute_def heap_sweep_done timer_fire_def
       check_def clearTimeout_def stop_call_def close_def stop_then_def add_listener_def
       fetch_def complete_def cancel_def split: prod.splits sum.splits option.splits\<close>)

lemma flag_run:
  assumes "attorney_contract env"
  shows "get_prop (heap w) ob ''singletonNextSlot'' = JBool False
    \<Longrightarrow> get_prop (heap (run env acts w)) ob ''singletonNextSlot'' = JBool False"
  unfolding run_def
  by (induction acts arbitrary: w) (auto simp: flag_step [OF assms])

lemma publish_step_inserted:
  assumes "i < length (publishing w)"
    and "publishing w ! i = Inserted t name data options ss jobid r"
  shows "publish_step env i w =
     insertJob_then env t name data options ss jobid r
       (w\<lparr>publishing := take i (publishing w) @ drop (Suc i) (publishing w)\<rparr>)"
  using assms by (simp add: publish_step_def)

lemma publish_step_no_retry:
  assumes "i < length (publishing w)"
    and "publishing w ! i = Inserted t name data options ss jobid (Inr res)"
    and "rowCount res \<noteq> 1"
    and "\<not> truthy (get_prop (heap w) options ''singletonNextSlot'')"
  shows "publish_step env i w =
     settle t (Inr JNull) (w\<lparr>publishing := take i (publishing w) @ drop (Suc i) (publishing w)\<rparr>)"
  using assms by (simp add: publish_step_inserted insertJob_then_def)

lemma publish_step_retry:
  assumes "i < length (publishing w)"
    and "publishing w ! i = Inserted t name data options ss jobid (Inr res)"
    and "rowCount res \<noteq> 1"
    and "truthy (get_prop (heap w) options ''singletonNextSlot'')"
  shows "publish_step env i w =
     insertJob_call env t name data options ss
       (w\<lparr>publishing := take i (publishing w) @ drop (Suc i) (publishing w),
          heap := set_prop (set_prop (heap w) options ''startIn'' ss)
                    options ''singletonNextSlot'' (JBool False)\<rparr>)"
  using assms by (simp add: publish_step_inserted insertJob_then_def)

lemma insertJob_call_unfold:
  "insertJob_call env t name data options off w =
     w\<lparr>idcount := Suc (idcount w),
       db := snd (executeSql env InsertJobCommand
               (Params (insert_values env (heap w) (JStr (uuid env (idcount w))) name data options off))
               (db w)),
       calls := calls w @ [(InsertJobCommand,
               Params (insert_values env (heap w) (JStr (uuid env (idcount w))) name data options off))],
       publishing := publishing w @
         [Inserted t name data options (singletonSeconds_of env (heap w) options)
            (JStr (uuid env (idcount w)))
            (fst (executeSql env InsertJobCommand
               (Params (insert_values env (heap w) (JStr (uuid env (idcount w))) name data options off))
               (db w)))]\<rparr>"
  by (simp add: insertJob_call_def Let_def execute_def split: prod.splits)

lemma publish_step_none: "publishing w = [] \<Longrightarrow> publish_step env i w = w"
  by (simp add: publish_step_def)

lemma publish_step_then:
  "publishing w = [Inserted t name data options ss jobid r] \<Longrightarrow>
   publish_step env 0 w = insertJob_then env t name data options ss jobid r (w\<lparr>publishing := []\<rparr>)"
  by (simp add: publish_step_def)

text \<open>
  \<open>insertJob\<close> run with nothing in between is \<open>insertJob\<close> run in pieces, one after
  the other, on a Manager with no other piece pending: the same outcome, heap, store,
  commands and ids.
\<close>

lemma insertJob_pieces:
  assumes "publishing w = []"
  shows "\<exists>w'. publish_step env 0 (publish_step env 0
            (insertJob_call env t name data options off w)) = w'
         \<and> published w' = published w @ [(t, fst (insertJob env name data options off w))]
         \<and> same_store w' (snd (insertJob env name data options off w))
         \<and> publishing w' = []"
proof -
  define vals where "vals = insert_values env (heap w) (JStr (uuid env (idcount w))) name data options off"
  obtain r d where e: "executeSql env InsertJobCommand (Params vals) (db w) = (r, d)"
    by (cases "executeSql env InsertJobCommand (Params vals) (db w)")
  define w1 where "w1 = insertJob_call env t name data options off w"
  have w1: "w1 = w\<lparr>idcount := Suc (idcount w), db := d,
       calls := calls w @ [(InsertJobCommand, Params vals)],
       publishing := [Inserted t name data options (singletonSeconds_of env (heap w) options)
            (JStr (uuid env (idcount w))) r]\<rparr>"
    using e assms unfolding w1_def vals_def by (simp add: insertJob_call_unfold)
  note a = insertJob_step [OF e [unfolded vals_def], folded vals_def]
  show ?thesis
  proof (cases "\<exists>res. r = Inr res \<and> rowCount res \<noteq> 1
                  \<and> truthy (get_prop (heap w) options ''singletonNextSlot'')")
    case False
    then show ?thesis
      unfolding w1_def [symmetric]
      by (cases r)
         (auto simp: w1 publish_step_then insertJob_then_def settle_def publish_step_none a
            same_store_def Let_def)
  next
    case True
    then obtain res where r: "r = Inr res" "rowCount res \<noteq> 1"
      and flag: "truthy (get_prop (heap w) options ''singletonNextSlot'')"
      by blast
    from truthy_get_prop_valid [OF flag]
    obtain b where b: "options = JObj b" "b < length (heap w)"
      by blast
    define ss where "ss = singletonSeconds_of env (heap w) options"
    define h2 where "h2 = set_prop (set_prop (heap w) options ''startIn'' ss)
                        options ''singletonNextSlot'' (JBool False)"
    define wa where "wa = w\<lparr>idcount := Suc (idcount w), db := d,
       calls := calls w @ [(InsertJobCommand, Params vals)], heap := h2\<rparr>"
    have g2: "\<not> truthy (get_prop h2 options ''singletonNextSlot'')"
      using b by (simp add: h2_def get_prop_set_prop length_set_prop not_truthy_False)
    have at: "insertJob env name data options off w = insertJob env name data options ss wa"
      using r flag by (simp add: a Let_def wa_def h2_def ss_def)
    define vals2 where "vals2 = insert_values env h2 (JStr (uuid env (Suc (idcount w)))) name data options ss"
    obtain r2 d2 where e2: "executeSql env InsertJobCommand (Params vals2) d = (r2, d2)"
      by (cases "executeSql env InsertJobCommand (Params vals2) d")
    have e2': "executeSql env InsertJobCommand
       (Params (insert_values env (heap wa) (JStr (uuid env (idcount wa))) name data options ss))
       (db wa) = (r2, d2)"
      using e2 by (simp add: wa_def vals2_def)
    note a2 = insertJob_step [OF e2']
    have s1: "publish_step env 0 w1 = insertJob_call env t name data options ss
        (w\<lparr>idcount := Suc (idcount w), db := d,
       calls := calls w @ [(InsertJobCommand, Params vals)], publishing := [], heap := h2\<rparr>)"
      using r flag by (simp add: w1 publish_step_then insertJob_then_def ss_def h2_def)
    have s2: "publish_step env 0 w1 = w\<lparr>idcount := Suc (Suc (idcount w)), db := d2,
       calls := calls w @ [(InsertJobCommand, Params vals), (InsertJobCommand, Params vals2)],
       publishing := [Inserted t name data options (singletonSeconds_of env h2 options)
            (JStr (uuid env (Suc (idcount w)))) r2], heap := h2\<rparr>"
      using e2 by (simp add: s1 insertJob_call_unfold vals2_def)
    have hwa: "heap wa = h2" "idcount wa = Suc (idcount w)" "db wa = d"
      "calls wa = calls w @ [(InsertJobCommand, Params vals)]"
      by (simp_all add: wa_def)
    have v2: "insert_values env h2 (JStr (uuid env (Suc (idcount w)))) name data options ss = vals2"
      by (simp add: vals2_def)
    show ?thesis
      unfolding w1_def [symmetric] using g2
      by (cases r2)
         (auto simp: s2 publish_step_then insertJob_then_def settle_def at a2 hwa v2
            same_store_def Let_def)
  qed
qed

text \<open>
  C2, as amended. \<open>options.singletonNextSlot\<close> is read when the insert's promise
  settles. When a suppressed insert settles and the options set the flag then, the
  options get \<open>startIn := singletonSeconds\<close> and \<open>singletonNextSlot := false\<close>, and the
  insert is handed to the executor once more, with \<open>singletonOffset = singletonSeconds\<close>
  and the start delay \<open>singletonSeconds\<close>; the call has not resolved yet. From then on,
  whatever the Manager runs, the flag of that options object stays false, so that the
  retry, like any later insert for these options, resolves with null when it is suppressed
  and hands nothing more to the executor. When a suppressed insert settles and the options
  do not set the flag then, the call resolves with null without a retry.
\<close>

theorem publish_retries_when_flag_still_set:
  assumes pending: "i < length (publishing w)"
    and task: "publishing w ! i = Inserted t name data options ss jobid (Inr res)"
    and suppressed: "rowCount res \<noteq> 1"
  shows "(\<not> truthy (get_prop (heap w) options ''singletonNextSlot'') \<longrightarrow>
            publish_step env i w =
              settle t (Inr JNull)
                (w\<lparr>publishing := take i (publishing w) @ drop (Suc i) (publishing w)\<rparr>))
       \<and> (truthy (get_prop (heap w) options ''singletonNextSlot'') \<longrightarrow>
            (let h2 = set_prop (set_prop (heap w) options ''startIn'' ss)
                        options ''singletonNextSlot'' (JBool False);
                 values2 = insert_values env h2 (JStr (uuid env (idcount w))) name data options ss;
                 w' = publish_step env i w
             in heap w' = h2
              \<and> get_prop h2 options ''startIn'' = ss
              \<and> get_prop h2 options ''singletonNextSlot'' = JBool False
              \<and> calls w' = calls w @ [(InsertJobCommand, Params values2)]
              \<and> values2 ! 3 = (if gt0 env ss then JStr (to_string env ss)
                               else if typeof ss = ''string'' then ss else JStr ''0'')
              \<and> values2 ! 8 = js_or ss (JNum 0)
              \<and> published w' = published w
              \<and> publishing w' =
                  take i (publishing w) @ drop (Suc i) (publishing w) @
                  [Inserted t name data options (singletonSeconds_of env h2 options)
                     (JStr (uuid env (idcount w)))
                     (fst (executeSql env InsertJobCommand (Params values2) (db w)))]
              \<and> (attorney_contract env \<longrightarrow>
                   (\<forall>acts j t' name' data' ss' jobid' res'.
                      get_prop (heap (run env acts w')) options ''singletonNextSlot'' = JBool False
                      \<and> (j < length (publishing (run env acts w'))
                          \<and> publishing (run env acts w') ! j
                              = Inserted t' name' data' options ss' jobid' (Inr res')
                          \<and> rowCount res' \<noteq> 1 \<longrightarrow>
                          published (publish_step env j (run env acts w'))
                            = published (run env acts w') @ [(t', Inr JNull)]
                          \<and> calls (publish_step env j (run env acts w'))
                            = calls (run env acts w'))))))"
proof (intro conjI impI)
  assume "\<not> truthy (get_prop (heap w) options ''singletonNextSlot'')"
  then show "publish_step env i w =
              settle t (Inr JNull)
                (w\<lparr>publishing := take i (publishing w) @ drop (Suc i) (publishing w)\<rparr>)"
    by (rule publish_step_no_retry [OF pending task suppressed])
next
  assume flag: "truthy (get_prop (heap w) options ''singletonNextSlot'')"
  define h2 where "h2 = set_prop (set_prop (heap w) options ''startIn'' ss)
                        options ''singletonNextSlot'' (JBool False)"
  define values2 where
    "values2 = insert_values env h2 (JStr (uuid env (idcount w))) name data options ss"
  define w' where "w' = publish_step env i w"
  from truthy_get_prop_valid [OF flag]
  obtain a where a: "options = JObj a" "a < length (heap w)"
    by blast
  have s: "w' = insertJob_call env t name data options ss
       (w\<lparr>publishing := take i (publishing w) @ drop (Suc i) (publishing w), heap := h2\<rparr>)"
    unfolding w'_def h2_def by (rule publish_step_retry [OF pending task suppressed flag])
  have hw: "heap w' = h2"
    by (simp add: s heap_insertJob_call)
  have g1: "get_prop h2 options ''startIn'' = ss"
    using a by (simp add: h2_def get_prop_set_prop length_set_prop)
  have g2: "get_prop h2 options ''singletonNextSlot'' = JBool False"
    using a by (simp add: h2_def get_prop_set_prop length_set_prop)
  have c: "calls w' = calls w @ [(InsertJobCommand, Params values2)]"
    by (simp add: s insertJob_call_unfold values2_def)
  have v3: "values2 ! 3 = (if gt0 env ss then JStr (to_string env ss)
                               else if typeof ss = ''string'' then ss else JStr ''0'')"
    by (simp add: values2_def insert_values_def startIn_of_def g1)
  have v8: "values2 ! 8 = js_or ss (JNum 0)"
    by (simp add: values2_def insert_values_def)
  have p: "published w' = published w"
    by (simp add: s insertJob_call_unfold)
  have q: "publishing w' =
                  take i (publishing w) @ drop (Suc i) (publishing w) @
                  [Inserted t name data options (singletonSeconds_of env h2 options)
                     (JStr (uuid env (idcount w)))
                     (fst (executeSql env InsertJobCommand (Params values2) (db w)))]"
    by (simp add: s insertJob_call_unfold values2_def)
  have later: "get_prop (heap (run env acts w')) options ''singletonNextSlot'' = JBool False
      \<and> (j < length (publishing (run env acts w'))
          \<and> publishing (run env acts w') ! j = Inserted t' name' data' options ss' jobid' (Inr res')
          \<and> rowCount res' \<noteq> 1 \<longrightarrow>
          published (publish_step env j (run env acts w'))
            = published (run env acts w') @ [(t', Inr JNull)]
          \<and> calls (publish_step env j (run env acts w')) = calls (run env acts w'))"
    if att: "attorney_contract env" for acts j t' name' data' ss' jobid' res'
  proof -
    have f: "get_prop (heap (run env acts w')) options ''singletonNextSlot'' = JBool False"
      by (rule flag_run [OF att]) (simp add: hw g2)
    then have "\<not> truthy (get_prop (heap (run env acts w')) options ''singletonNextSlot'')"
      by (simp add: not_truthy_False)
    then show ?thesis
      using f by (auto simp: publish_step_no_retry settle_def)
  qed
  from hw g1 g2 c v3 v8 p q later
  show "let h2 = set_prop (set_prop (heap w) options ''startIn'' ss)
                        options ''singletonNextSlot'' (JBool False);
                 values2 = insert_values env h2 (JStr (uuid env (idcount w))) name data options ss;
                 w' = publish_step env i w
             in heap w' = h2
              \<and> get_prop h2 options ''startIn'' = ss
              \<and> get_prop h2 options ''singletonNextSlot'' = JBool False
              \<and> calls w' = calls w @ [(InsertJobCommand, Params values2)]
              \<and> values2 ! 3 = (if gt0 env ss then JStr (to_string env ss)
                               else if typeof ss = ''string'' then ss else JStr ''0'')
              \<and> values2 ! 8 = js_or ss (JNum 0)
              \<and> published w' = published w
              \<and> publishing w' =
                  take i (publishing w) @ drop (Suc i) (publishing w) @
                  [Inserted t name data options (singletonSeconds_of env h2 options)
                     (JStr (uuid env (idcount w)))
                     (fst (executeSql env InsertJobCommand (Params values2) (db w)))]
              \<and> (attorney_contract env \<longrightarrow>
                   (\<forall>acts j t' name' data' ss' jobid' res'.
                      get_prop (heap (run env acts w')) options ''singletonNextSlot'' = JBool False
                      \<and> (j < length (publishing (run env acts w'))
                          \<and> publishing (run env acts w') ! j
                              = Inserted t' name' data' options ss' jobid' (Inr res')
                          \<and> rowCount res' \<noteq> 1 \<longrightarrow>
                          published (publish_step env j (run env acts w'))
                            = published (run env acts w') @ [(t', Inr JNull)]
                          \<and> calls (publish_step env j (run env acts w'))
                            = calls (run env acts w'))))"
    unfolding Let_def h2_def [symmetric] values2_def [symmetric] w'_def [symmetric]
    by blast
qed

theorem publish_retries_when_flag_still_set_witness:
  "calls (run scripted_env [CallPublish [JStr ''tick'', JNull, JObj 0], PublishStep 0, PublishStep 0]
       (Manager [affected 0, affected 0] default_config
          [[(''singletonKey'', JStr ''k''), (''singletonSeconds'', JNum 60),
            (''singletonNextSlot'', JBool True)]]))
     = [(InsertJobCommand, Params [JStr ''job-0'', JStr ''tick'', JNum 0, JStr ''0'',
           JStr ''15 minutes'', JNull, JStr ''k'', JNum 60, JNum 0]),
        (InsertJobCommand, Params [JStr ''job-1'', JStr ''tick'', JNum 0, JStr ''60'',
           JStr ''15 minutes'', JNull, JStr ''k'', JNum 60, JNum 60])]
   \<and> published (run scripted_env
         [CallPublish [JStr ''tick'', JNull, JObj 0], PublishStep 0, PublishStep 0, PublishStep 0]
       (Manager [affected 0, affected 0] default_config
          [[(''singletonKey'', JStr ''k''), (''singletonSeconds'', JNum 60),
            (''singletonNextSlot'', JBool True)]]))
     = [(0, Inr JNull)]"
proof -
  define m where "m = Manager [affected 0, affected 0] default_config
          [[(''singletonKey'', JStr ''k''), (''singletonSeconds'', JNum 60),
            (''singletonNextSlot'', JBool True)]]"
  define w where "w = run scripted_env [CallPublish [JStr ''tick'', JNull, JObj 0], PublishStep 0] m"
  define w' where "w' = publish_step scripted_env 0 w"
  define res :: result where "res = \<lparr>rowCount = 0, rows = []\<rparr>"
  have pending: "0 < length (publishing w)"
    unfolding w_def m_def by code_simp
  have task: "publishing w ! 0
      = Inserted 0 (JStr ''tick'') JNull (JObj 0) (JNum 60) (JStr ''job-0'') (Inr res)"
    unfolding w_def m_def res_def by code_simp
  have suppressed: "rowCount res \<noteq> 1"
    by (simp add: res_def)
  have flag: "truthy (get_prop (heap w) (JObj 0) ''singletonNextSlot'')"
    unfolding w_def m_def by code_simp
  have e: "calls w = [(InsertJobCommand, Params [JStr ''job-0'', JStr ''tick'', JNum 0, JStr ''0'',
           JStr ''15 minutes'', JNull, JStr ''k'', JNum 60, JNum 0])]"
    "published w = []" "db w = [affected 0]" "idcount w = Suc 0" "length (publishing w) = 1"
    unfolding w_def m_def by code_simp+
  have v: "insert_values scripted_env
        (set_prop (set_prop (heap w) (JObj 0) ''startIn'' (JNum 60)) (JObj 0)
           ''singletonNextSlot'' (JBool False))
        (JStr (uuid scripted_env (Suc 0))) (JStr ''tick'') JNull (JObj 0) (JNum 60)
      = [JStr ''job-1'', JStr ''tick'', JNum 0, JStr ''60'', JStr ''15 minutes'', JNull,
         JStr ''k'', JNum 60, JNum 60]"
    unfolding w_def m_def by code_simp
  have x: "fst (executeSql scripted_env InsertJobCommand p [affected 0]) = Inr res" for p
    by (simp add: scripted_env_def scripted_def affected_def res_def)
  note t = publish_retries_when_flag_still_set [OF pending task suppressed, of scripted_env,
      unfolded Let_def, THEN conjunct2, rule_format, OF flag, folded w'_def]
  from t have c: "calls w' = calls w @ [(InsertJobCommand,
      Params [JStr ''job-1'', JStr ''tick'', JNum 0, JStr ''60'', JStr ''15 minutes'', JNull,
         JStr ''k'', JNum 60, JNum 60])]"
    by (simp add: e v)
  from t have p: "published w' = []"
    by (simp add: e)
  from t obtain ss2 where q: "publishing w'
      = [Inserted 0 (JStr ''tick'') JNull (JObj 0) ss2 (JStr (uuid scripted_env (Suc 0))) (Inr res)]"
    by (simp add: e x)
  from t attorney_meets_contract
  have "0 < length (publishing (run scripted_env [] w'))
          \<and> publishing (run scripted_env [] w') ! 0
              = Inserted 0 (JStr ''tick'') JNull (JObj 0) ss2 (JStr (uuid scripted_env (Suc 0))) (Inr res)
          \<and> rowCount res \<noteq> 1 \<longrightarrow>
          published (publish_step scripted_env 0 (run scripted_env [] w'))
            = published (run scripted_env [] w') @ [(0, Inr JNull)]"
    by blast
  then have n: "published (publish_step scripted_env 0 w') = [(0, Inr JNull)]"
    by (simp add: run_def q p res_def)
  have r2: "run scripted_env [CallPublish [JStr ''tick'', JNull, JObj 0], PublishStep 0, PublishStep 0] m
      = w'"
    by (simp add: w'_def w_def run_def)
  have r3: "run scripted_env
      [CallPublish [JStr ''tick'', JNull, JObj 0], PublishStep 0, PublishStep 0, PublishStep 0] m
      = publish_step scripted_env 0 w'"
    by (simp add: w'_def w_def run_def)
  from c n show ?thesis
    unfolding m_def [symmetric] r2 r3 by (simp add: e)
qed

theorem publish_flag_cleared_by_other_call_counterexample:
  "truthy (get_prop (heap (run scripted_env
       [CallPublish [JStr ''tick'', JNull, JObj 0], CallPublish [JStr ''tick'', JNull, JObj 0],
        PublishStep 0, PublishStep 0]
       (Manager [affected 0, affected 0, affected 0] default_config
          [[(''singletonKey'', JStr ''k''), (''singletonSeconds'', JNum 60),
            (''singletonNextSlot'', JBool True)]]))) (JObj 0) ''singletonNextSlot'')
   \<and> published (run scripted_env
       [CallPublish [JStr ''tick'', JNull, JObj 0], CallPublish [JStr ''tick'', JNull, JObj 0],
        PublishStep 0, PublishStep 0, PublishStep 0, PublishStep 0]
       (Manager [affected 0, affected 0, affected 0] default_config
          [[(''singletonKey'', JStr ''k''), (''singletonSeconds'', JNum 60),
            (''singletonNextSlot'', JBool True)]]))
     = [(1, Inr JNull)]
   \<and> calls (run scripted_env
       [CallPublish [JStr ''tick'', JNull, JObj 0], CallPublish [JStr ''tick'', JNull, JObj 0],
        PublishStep 0, PublishStep 0, PublishStep 0, PublishStep 0]
       (Manager [affected 0, affected 0, affected 0] default_config
          [[(''singletonKey'', JStr ''k''), (''singletonSeconds'', JNum 60),
            (''singletonNextSlot'', JBool True)]]))
     = [(InsertJobCommand, Params [JStr ''job-0'', JStr ''tick'', JNum 0, JStr ''0'',
           JStr ''15 minutes'', JNull, JStr ''k'', JNum 60, JNum 0]),
        (InsertJobCommand, Params [JStr ''job-1'', JStr ''tick'', JNum 0, JStr ''0'',
           JStr ''15 minutes'', JNull, JStr ''k'', JNum 60, JNum 0]),
        (InsertJobCommand, Params [JStr ''job-2'', JStr ''tick'', JNum 0, JStr ''60'',
           JStr ''15 minutes'', JNull, JStr ''k'', JNum 60, JNum 60])]"
  by code_simp

end
